theory Spec2Isabelle
  imports Complex_Main
begin

section \<open>Values and outcomes\<close>

text \<open>
  JavaScript numbers are modelled as real numbers. A \<open>THREE.Vector3\<close> is a triple of
  numbers; \<open>distanceTo\<close> is the library's Euclidean distance.
\<close>

datatype Vector3 = Vector3 (vx: real) (vy: real) (vz: real)

definition distanceTo :: "Vector3 \<Rightarrow> Vector3 \<Rightarrow> real" where
  "distanceTo a b = sqrt ((vx a - vx b)\<^sup>2 + (vy a - vy b)\<^sup>2 + (vz a - vz b)\<^sup>2)"

text \<open>
  A method either returns a value or throws. Whatever it wrote before throwing stays
  written, so every method maps a game state to an outcome and the state it leaves.
\<close>

datatype exn = TypeError

datatype 'a completion = Return 'a | Throw exn

section \<open>The data model\<close>

text \<open>
  A material as far as the quantum objects touch it: \<open>opacity\<close> and \<open>color\<close> are
  \<open>None\<close> when the material has no such property.
\<close>

record Material =
  opacity :: "real option"
  color :: "nat option"

record Mesh =
  mesh_scale :: Vector3

datatype Kind =
  Base | Bridge | Elevator | Door | Powerup | Hazard | Platform | Obstacle | Collectible

text \<open>
  One record holds the fields of \<open>QuantumObject\<close> and of its subclasses; \<open>kind\<close> is
  the object's class. \<open>observedState = None\<close> is the source's \<open>null\<close> (superposition).
  A subclass field is \<open>None\<close> while the property is undefined on the object.
  \<open>mesh.material\<close> and \<open>material\<close> are the same object in every class, so the record
  has one \<open>material\<close> field.
\<close>

record QuantumObject =
  kind :: Kind
  position :: Vector3
  qsize :: Vector3
  observedState :: "nat option"
  superpositionFactor :: real
  collapseProbability :: real
  mesh :: "Mesh option"
  material :: "Material option"
  isHarmful :: "bool option"
  damage :: "real option"
  isSolid :: "bool option"
  isOpen :: "bool option"
  minHeight :: "real option"
  maxHeight :: "real option"
  targetHeight :: "real option"

record QuantumSystem =
  observerMode :: bool
  observerModeEnergy :: real
  currentEnergy :: real
  energyDrainRate :: real
  energyRechargeRate :: real
  quantumObjects :: "nat list"
  uniforms_time :: real
  uniforms_observerMode :: real

text \<open>
  The page elements the core reads with \<open>document.getElementById\<close>; \<open>None\<close> when the
  page has no element of that id. The value is the text or width last written.
\<close>

record Document =
  quantum_fill :: "real option"
  observerStatus :: "string option"
  scoreValue :: "real option"

text \<open>
  Requests that leave the core, in the order they are made: a collapse effect asked of
  the particle system, a score increment asked of the game, a message on the console,
  and a \<open>setObserverMode\<close> call made on a registered object.
\<close>

datatype event =
  CreateCollapseEffect Vector3
  | UpdateScore real
  | ConsoleError exn
  | CallSetObserverMode nat bool

text \<open>
  The game state. Objects live in \<open>heap\<close> and are named by reference; \<open>next_ref\<close> is
  the next unused reference. \<open>Math.random()\<close> reads \<open>random_stream\<close> at position
  \<open>random_used\<close>. \<open>shaderMaterial\<close> is the material that
  \<open>new THREE.ShaderMaterial(...)\<close> builds in \<open>createQuantumMaterial\<close>.
\<close>

record Game =
  score :: real
  quantum :: QuantumSystem
  heap :: "nat \<Rightarrow> QuantumObject"
  next_ref :: nat
  document :: Document
  random_stream :: "nat \<Rightarrow> real"
  random_used :: nat
  trace :: "event list"
  shaderMaterial :: Material

type_synonym 'a action = "Game \<Rightarrow> 'a completion \<times> Game"

definition Math_random :: "Game \<Rightarrow> real \<times> Game" where
  "Math_random g = (random_stream g (random_used g), g\<lparr>random_used := Suc (random_used g)\<rparr>)"

text \<open>Writing fields of the object behind a reference.\<close>

definition modify :: "nat \<Rightarrow> (QuantumObject \<Rightarrow> QuantumObject) \<Rightarrow> Game \<Rightarrow> Game" where
  "modify this f g = g\<lparr>heap := (heap g)(this := f (heap g this))\<rparr>"

section \<open>Collaborators: score and particles\<close>

text \<open>
  \<open>Game.updateScore\<close>: adds the points, then writes the score into the page element
  \<open>scoreValue\<close>; the write throws when the element is missing.
\<close>

definition updateScore :: "real \<Rightarrow> unit action" where
  "updateScore points g =
     (let g1 = g\<lparr>trace := trace g @ [UpdateScore points]\<rparr>;
          g2 = g1\<lparr>score := score g1 + points\<rparr>
      in case scoreValue (document g2) of
           None \<Rightarrow> (Throw TypeError, g2)
         | Some old \<Rightarrow> (Return (), g2\<lparr>document := (document g2)\<lparr>scoreValue := Some (score g2)\<rparr>\<rparr>))"

text \<open>
  \<open>ParticleSystem.createCollapseEffect\<close>: twelve particles, six \<open>Math.random()\<close>
  draws each. The particles are rendering state and are not kept; the request and the
  draws are.
\<close>

definition createCollapseEffect :: "Vector3 \<Rightarrow> unit action" where
  "createCollapseEffect p g =
     (Return (), g\<lparr>trace := trace g @ [CreateCollapseEffect p],
                   random_used := random_used g + 12 * 6\<rparr>)"

section \<open>QuantumSystem: the pure helpers\<close>

definition getWaveFunction :: "Vector3 \<Rightarrow> real \<Rightarrow> real action" where
  "getWaveFunction p time g =
     (let amplitude = sin (vx p * 0.1 + vy p * 0.1 + vz p * 0.1 + time * 2) * 0.5 + 0.5
      in (Return amplitude, g))"

definition getSuperpositionState :: "Vector3 \<Rightarrow> real \<Rightarrow> real action" where
  "getSuperpositionState p time g =
     (let state1 = sin (vx p * 0.2 + time * 1.5) * 0.5 + 0.5;
          state2 = cos (vz p * 0.3 + time * 2.0) * 0.5 + 0.5;
          state3 = sin (vy p * 0.25 + time * 1.0) * 0.5 + 0.5
      in (Return (state1 * 0.4 + state2 * 0.3 + state3 * 0.3), g))"

section \<open>QuantumObject\<close>

definition set_opacity :: "real \<Rightarrow> QuantumObject \<Rightarrow> QuantumObject" where
  "set_opacity v ob =
     (case material ob of
        None \<Rightarrow> ob
      | Some mat \<Rightarrow>
          (if opacity mat \<noteq> None then ob\<lparr>material := Some (mat\<lparr>opacity := Some v\<rparr>)\<rparr> else ob))"

definition updateVisualState :: "nat \<Rightarrow> unit action" where
  "updateVisualState this g =
     (let ob = heap g this in
      case mesh ob of
        None \<Rightarrow> (Return (), g)
      | Some m \<Rightarrow>
          (case observedState ob of
             None \<Rightarrow>
               (let f = 0.8 + superpositionFactor ob * 0.4;
                    ob1 = ob\<lparr>mesh := Some (m\<lparr>mesh_scale := Vector3 f f f\<rparr>)\<rparr>
                in (Return (),
                    modify this (\<lambda>_. set_opacity (0.4 + superpositionFactor ob * 0.4) ob1) g))
           | Some s \<Rightarrow>
               (let stateFactor = (if s = 1 then 1.2 else 0.8);
                    ob1 = ob\<lparr>mesh := Some (m\<lparr>mesh_scale := Vector3 stateFactor stateFactor stateFactor\<rparr>)\<rparr>
                in (Return (), modify this (\<lambda>_. set_opacity 0.9 ob1) g))))"

definition updateQuantumState :: "nat \<Rightarrow> real \<Rightarrow> real \<Rightarrow> unit action" where
  "updateQuantumState this delta time g =
     (if observedState (heap g this) \<noteq> None then (Return (), g)
      else
        (case getSuperpositionState (position (heap g this)) time g of
           (Throw e, g1) \<Rightarrow> (Throw e, g1)
         | (Return f, g1) \<Rightarrow>
             updateVisualState this (modify this (\<lambda>ob. ob\<lparr>superpositionFactor := f\<rparr>) g1)))"

text \<open>
  The argument of \<open>collapse\<close>: left out (\<open>undefined\<close>), or a value, which is a state
  number or \<open>null\<close>. The source tests \<open>forcedState !== undefined\<close>, so \<open>null\<close> counts
  as a forced state.
\<close>

datatype forced = Undefined | Forced "nat option"

text \<open>
  \<open>QuantumObject.collapse\<close>. \<open>Undefined\<close> is the call without an argument.
\<close>

definition QuantumObject_collapse :: "nat \<Rightarrow> forced \<Rightarrow> nat option action" where
  "QuantumObject_collapse this forcedState g =
     (let g1 =
            (case forcedState of
               Forced v \<Rightarrow> modify this (\<lambda>ob. ob\<lparr>observedState := v\<rparr>) g
             | Undefined \<Rightarrow>
                 (let (r, g') = Math_random g
                  in modify this
                       (\<lambda>ob. ob\<lparr>observedState :=
                                   Some (if r < collapseProbability ob then 1 else 0)\<rparr>) g'))
      in case updateVisualState this g1 of
           (Throw e, g2) \<Rightarrow> (Throw e, g2)
         | (Return u, g2) \<Rightarrow>
             (case createCollapseEffect (position (heap g2 this)) g2 of
                (Throw e, g3) \<Rightarrow> (Throw e, g3)
              | (Return u, g3) \<Rightarrow>
                  (case updateScore 10 g3 of
                     (Throw e, g4) \<Rightarrow> (Throw e, g4)
                   | (Return u, g4) \<Rightarrow> (Return (observedState (heap g4 this)), g4))))"

subsection \<open>The subclasses' collapse\<close>

text \<open>
  \<open>this.mesh.material.opacity = v\<close>, unguarded: throws when there is no mesh or no
  material, and defines the property otherwise.
\<close>

definition assign_mesh_material_opacity :: "nat \<Rightarrow> real \<Rightarrow> unit action" where
  "assign_mesh_material_opacity this v g =
     (let ob = heap g this in
      case mesh ob of
        None \<Rightarrow> (Throw TypeError, g)
      | Some m \<Rightarrow>
          (case material ob of
             None \<Rightarrow> (Throw TypeError, g)
           | Some mat \<Rightarrow>
               (Return (), modify this (\<lambda>ob. ob\<lparr>material := Some (mat\<lparr>opacity := Some v\<rparr>)\<rparr>) g)))"

text \<open>\<open>this.material.color.set(c)\<close>, unguarded: throws when the material has no color.\<close>

definition material_color_set :: "nat \<Rightarrow> nat \<Rightarrow> unit action" where
  "material_color_set this c g =
     (case material (heap g this) of
        None \<Rightarrow> (Throw TypeError, g)
      | Some mat \<Rightarrow>
          (case color mat of
             None \<Rightarrow> (Throw TypeError, g)
           | Some old \<Rightarrow>
               (Return (), modify this (\<lambda>ob. ob\<lparr>material := Some (mat\<lparr>color := Some c\<rparr>)\<rparr>) g)))"

definition QuantumBridge_collapse :: "nat \<Rightarrow> forced \<Rightarrow> nat option action" where
  "QuantumBridge_collapse this forcedState g =
     (case QuantumObject_collapse this forcedState g of
        (Throw e, g1) \<Rightarrow> (Throw e, g1)
      | (Return state, g1) \<Rightarrow>
          (if state = Some 0 then
             (case assign_mesh_material_opacity this 0.2 g1 of
                (Throw e, g2) \<Rightarrow> (Throw e, g2)
              | (Return u, g2) \<Rightarrow>
                  (Return state, modify this (\<lambda>ob. ob\<lparr>isSolid := Some False\<rparr>) g2))
           else
             (case assign_mesh_material_opacity this 0.9 g1 of
                (Throw e, g2) \<Rightarrow> (Throw e, g2)
              | (Return u, g2) \<Rightarrow>
                  (Return state, modify this (\<lambda>ob. ob\<lparr>isSolid := Some True\<rparr>) g2))))"

definition QuantumElevator_collapse :: "nat \<Rightarrow> forced \<Rightarrow> nat option action" where
  "QuantumElevator_collapse this forcedState g =
     (case QuantumObject_collapse this forcedState g of
        (Throw e, g1) \<Rightarrow> (Throw e, g1)
      | (Return state, g1) \<Rightarrow>
          (Return state,
           modify this
             (\<lambda>ob. ob\<lparr>targetHeight := (if state = Some 1 then maxHeight ob else minHeight ob)\<rparr>) g1))"

definition QuantumDoor_collapse :: "nat \<Rightarrow> forced \<Rightarrow> nat option action" where
  "QuantumDoor_collapse this forcedState g =
     (case QuantumObject_collapse this forcedState g of
        (Throw e, g1) \<Rightarrow> (Throw e, g1)
      | (Return state, g1) \<Rightarrow>
          (if state = Some 1 then
             (case assign_mesh_material_opacity this 0.2 g1 of
                (Throw e, g2) \<Rightarrow> (Throw e, g2)
              | (Return u, g2) \<Rightarrow>
                  (Return state, modify this (\<lambda>ob. ob\<lparr>isOpen := Some True\<rparr>) g2))
           else
             (case assign_mesh_material_opacity this 0.9 g1 of
                (Throw e, g2) \<Rightarrow> (Throw e, g2)
              | (Return u, g2) \<Rightarrow>
                  (Return state, modify this (\<lambda>ob. ob\<lparr>isOpen := Some False\<rparr>) g2))))"

definition QuantumHazard_collapse :: "nat \<Rightarrow> forced \<Rightarrow> nat option action" where
  "QuantumHazard_collapse this forcedState g =
     (case QuantumObject_collapse this forcedState g of
        (Throw e, g1) \<Rightarrow> (Throw e, g1)
      | (Return state, g1) \<Rightarrow>
          (if state = Some 1 then
             (case material_color_set this 0xff0000 g1 of
                (Throw e, g2) \<Rightarrow> (Throw e, g2)
              | (Return u, g2) \<Rightarrow>
                  (Return state, modify this (\<lambda>ob. ob\<lparr>isHarmful := Some True\<rparr>) g2))
           else
             (case material_color_set this 0x00ff00 g1 of
                (Throw e, g2) \<Rightarrow> (Throw e, g2)
              | (Return u, g2) \<Rightarrow>
                  (Return state, modify this (\<lambda>ob. ob\<lparr>isHarmful := Some False\<rparr>) g2))))"

definition QuantumPlatform_collapse :: "nat \<Rightarrow> forced \<Rightarrow> nat option action" where
  "QuantumPlatform_collapse this forcedState g =
     (case QuantumObject_collapse this forcedState g of
        (Throw e, g1) \<Rightarrow> (Throw e, g1)
      | (Return state, g1) \<Rightarrow>
          (if mesh (heap g1 this) \<noteq> None \<and> material (heap g1 this) \<noteq> None then
             (case (if state = Some 0 then assign_mesh_material_opacity this 0.3 g1
                    else assign_mesh_material_opacity this 0.9 g1) of
                (Throw e, g2) \<Rightarrow> (Throw e, g2)
              | (Return u, g2) \<Rightarrow> (Return state, g2))
           else (Return state, g1)))"

text \<open>The guarded \<open>if (this.material && this.material.color) this.material.color.set(c)\<close>.\<close>

definition guarded_color_set :: "nat \<Rightarrow> nat \<Rightarrow> unit action" where
  "guarded_color_set this c g =
     (case material (heap g this) of
        None \<Rightarrow> (Return (), g)
      | Some mat \<Rightarrow> (if color mat \<noteq> None then material_color_set this c g else (Return (), g)))"

definition QuantumObstacle_collapse :: "nat \<Rightarrow> forced \<Rightarrow> nat option action" where
  "QuantumObstacle_collapse this forcedState g =
     (case QuantumObject_collapse this forcedState g of
        (Throw e, g1) \<Rightarrow> (Throw e, g1)
      | (Return state, g1) \<Rightarrow>
          (if state = Some 1 then
             (case guarded_color_set this 0xff0000 g1 of
                (Throw e, g2) \<Rightarrow> (Throw e, g2)
              | (Return u, g2) \<Rightarrow>
                  (Return state, modify this (\<lambda>ob. ob\<lparr>isHarmful := Some True\<rparr>) g2))
           else
             (case guarded_color_set this 0x00ff00 g1 of
                (Throw e, g2) \<Rightarrow> (Throw e, g2)
              | (Return u, g2) \<Rightarrow>
                  (Return state, modify this (\<lambda>ob. ob\<lparr>isHarmful := Some False\<rparr>) g2))))"

text \<open>
  A call \<open>obj.collapse(...)\<close> runs the method of the object's class; powerups and
  collectibles inherit the base method.
\<close>

definition collapse :: "nat \<Rightarrow> forced \<Rightarrow> nat option action" where
  "collapse this forcedState g =
     (case kind (heap g this) of
        Bridge \<Rightarrow> QuantumBridge_collapse this forcedState g
      | Elevator \<Rightarrow> QuantumElevator_collapse this forcedState g
      | Door \<Rightarrow> QuantumDoor_collapse this forcedState g
      | Hazard \<Rightarrow> QuantumHazard_collapse this forcedState g
      | Platform \<Rightarrow> QuantumPlatform_collapse this forcedState g
      | Obstacle \<Rightarrow> QuantumObstacle_collapse this forcedState g
      | _ \<Rightarrow> QuantumObject_collapse this forcedState g)"

definition setObserverMode :: "nat \<Rightarrow> bool \<Rightarrow> unit action" where
  "setObserverMode this isObserverMode g =
     (if isObserverMode \<and> observedState (heap g this) = None then
        (let (r, g1) = Math_random g in
         if r < 0.3 then
           (case collapse this Undefined g1 of
              (Return state, g2) \<Rightarrow> (Return (), g2)
            | (Throw e, g2) \<Rightarrow> (Return (), g2\<lparr>trace := trace g2 @ [ConsoleError e]\<rparr>))
         else (Return (), g1))
      else (Return (), g))"

subsection \<open>Obstacles and hazards: the collision query\<close>

definition QuantumObstacle_checkPlayerCollision :: "nat \<Rightarrow> Vector3 \<Rightarrow> real \<Rightarrow> bool action" where
  "QuantumObstacle_checkPlayerCollision this playerPosition playerRadius g =
     (if observedState (heap g this) \<noteq> Some 1 then (Return False, g)
      else
        (let distance = distanceTo (position (heap g this)) playerPosition;
             combinedRadius = vx (qsize (heap g this)) / 2 + playerRadius
         in (Return (distance < combinedRadius), g)))"

definition QuantumHazard_checkPlayerCollision :: "nat \<Rightarrow> Vector3 \<Rightarrow> real \<Rightarrow> bool action" where
  "QuantumHazard_checkPlayerCollision this playerPosition playerRadius g =
     (if isHarmful (heap g this) \<noteq> Some True then (Return False, g)
      else
        (let distance = distanceTo (position (heap g this)) playerPosition;
             collisionRadius = vx (qsize (heap g this)) / 2 + playerRadius
         in (Return (distance < collisionRadius), g)))"

section \<open>QuantumSystem\<close>

definition QuantumSystem_constructor :: QuantumSystem where
  "QuantumSystem_constructor =
     \<lparr>observerMode = False, observerModeEnergy = 100, currentEnergy = 100,
      energyDrainRate = 15, energyRechargeRate = 8, quantumObjects = [],
      uniforms_time = 0, uniforms_observerMode = 0\<rparr>"

definition registerQuantumObject :: "nat \<Rightarrow> unit action" where
  "registerQuantumObject object g =
     (Return (), g\<lparr>quantum := (quantum g)\<lparr>quantumObjects := quantumObjects (quantum g) @ [object]\<rparr>\<rparr>)"

text \<open>\<open>Array.prototype.indexOf\<close>: the first index holding the value, or \<open>-1\<close>.\<close>

fun indexOf :: "'a list \<Rightarrow> 'a \<Rightarrow> int" where
  "indexOf [] x = - 1"
| "indexOf (y # ys) x =
     (if y = x then 0 else (let i = indexOf ys x in if i = - 1 then - 1 else i + 1))"

text \<open>\<open>splice(index, 1)\<close> for an index inside the array: the array without that element.\<close>

definition splice1 :: "'a list \<Rightarrow> nat \<Rightarrow> 'a list" where
  "splice1 xs i = take i xs @ drop (Suc i) xs"

definition unregisterQuantumObject :: "nat \<Rightarrow> unit action" where
  "unregisterQuantumObject object g =
     (let index = indexOf (quantumObjects (quantum g)) object in
      if index \<noteq> - 1 then
        (Return (),
         g\<lparr>quantum := (quantum g)\<lparr>quantumObjects := splice1 (quantumObjects (quantum g)) (nat index)\<rparr>\<rparr>)
      else (Return (), g))"

text \<open>
  The \<open>forEach\<close> of \<open>toggleObserverMode\<close>. Every entry of the registry is a quantum
  object, so the callback's guard holds; the callback reads \<open>this.observerMode\<close> anew
  for each object.
\<close>

fun forEach_setObserverMode :: "nat list \<Rightarrow> unit action" where
  "forEach_setObserverMode [] g = (Return (), g)"
| "forEach_setObserverMode (obj # objs) g =
     (let b = observerMode (quantum g) in
      case setObserverMode obj b (g\<lparr>trace := trace g @ [CallSetObserverMode obj b]\<rparr>) of
        (Throw e, g1) \<Rightarrow> (Throw e, g1)
      | (Return u, g1) \<Rightarrow> forEach_setObserverMode objs g1)"

text \<open>\<open>forceState = None\<close> is the call without an argument.\<close>

definition toggleObserverMode :: "bool option \<Rightarrow> unit action" where
  "toggleObserverMode forceState g =
     (if forceState = None \<and> \<not> observerMode (quantum g) \<and> currentEnergy (quantum g) \<le> 0
      then (Return (), g)
      else
        (let g1 =
               (case forceState of
                  Some b \<Rightarrow> g\<lparr>quantum := (quantum g)\<lparr>observerMode := b\<rparr>\<rparr>
                | None \<Rightarrow> g\<lparr>quantum := (quantum g)\<lparr>observerMode := \<not> observerMode (quantum g)\<rparr>\<rparr>);
             g2 =
               (case observerStatus (document g1) of
                  None \<Rightarrow> g1
                | Some old \<Rightarrow>
                    g1\<lparr>document := (document g1)
                         \<lparr>observerStatus := Some (if observerMode (quantum g1) then ''ON'' else ''OFF'')\<rparr>\<rparr>);
             g3 = g2\<lparr>quantum := (quantum g2)
                        \<lparr>uniforms_observerMode := (if observerMode (quantum g2) then 1.0 else 0.0)\<rparr>\<rparr>
         in forEach_setObserverMode (quantumObjects (quantum g3)) g3))"

text \<open>
  \<open>handleObserverModeEnergy\<close>. The energy bar is looked up first and written last; the
  write throws when the page has no such element.
\<close>

definition handleObserverModeEnergy :: "real \<Rightarrow> unit action" where
  "handleObserverModeEnergy delta g =
     (let energyBar = quantum_fill (document g) in
      case
        (if observerMode (quantum g) then
           (let g1 = g\<lparr>quantum := (quantum g)
                         \<lparr>currentEnergy :=
                            max 0 (currentEnergy (quantum g) - energyDrainRate (quantum g) * delta)\<rparr>\<rparr>
            in if currentEnergy (quantum g1) \<le> 0 then toggleObserverMode (Some False) g1
               else (Return (), g1))
         else
           (Return (),
            g\<lparr>quantum := (quantum g)
                 \<lparr>currentEnergy :=
                    min (observerModeEnergy (quantum g))
                        (currentEnergy (quantum g) + energyRechargeRate (quantum g) * delta)\<rparr>\<rparr>))
      of
        (Throw e, g2) \<Rightarrow> (Throw e, g2)
      | (Return u, g2) \<Rightarrow>
          (let percentage = currentEnergy (quantum g2) / observerModeEnergy (quantum g2) * 100 in
           case energyBar of
             None \<Rightarrow> (Throw TypeError, g2)
           | Some old \<Rightarrow>
               (Return (), g2\<lparr>document := (document g2)\<lparr>quantum_fill := Some percentage\<rparr>\<rparr>)))"

definition updateUniformTime :: "real \<Rightarrow> unit action" where
  "updateUniformTime delta g =
     (Return (), g\<lparr>quantum := (quantum g)\<lparr>uniforms_time := uniforms_time (quantum g) + delta\<rparr>\<rparr>)"

fun forEach_updateQuantumState :: "nat list \<Rightarrow> real \<Rightarrow> unit action" where
  "forEach_updateQuantumState [] delta g = (Return (), g)"
| "forEach_updateQuantumState (obj # objs) delta g =
     (case updateQuantumState obj delta (uniforms_time (quantum g)) g of
        (Throw e, g1) \<Rightarrow> (Throw e, g1)
      | (Return u, g1) \<Rightarrow> forEach_updateQuantumState objs delta g1)"

definition updateQuantumObjects :: "real \<Rightarrow> unit action" where
  "updateQuantumObjects delta g = forEach_updateQuantumState (quantumObjects (quantum g)) delta g"

definition QuantumSystem_update :: "real \<Rightarrow> unit action" where
  "QuantumSystem_update delta g =
     (case updateUniformTime delta g of
        (Throw e, g1) \<Rightarrow> (Throw e, g1)
      | (Return u, g1) \<Rightarrow>
          (case handleObserverModeEnergy delta g1 of
             (Throw e, g2) \<Rightarrow> (Throw e, g2)
           | (Return u, g2) \<Rightarrow> updateQuantumObjects delta g2))"

section \<open>Construction\<close>

definition createQuantumMaterial :: "Material action" where
  "createQuantumMaterial g = (Return (shaderMaterial g), g)"

text \<open>
  \<open>new QuantumObject(game, position, size)\<close>, run for an object of class \<open>k\<close>; an
  omitted position or size is \<open>None\<close>. The result is the reference of the new object.
  A new mesh has scale \<open>(1, 1, 1)\<close>.
\<close>

definition QuantumObject_constructor ::
  "Kind \<Rightarrow> Vector3 option \<Rightarrow> Vector3 option \<Rightarrow> nat action" where
  "QuantumObject_constructor k pos sz g =
     (let this = next_ref g;
          g0 = g\<lparr>next_ref := Suc (next_ref g)\<rparr>;
          (r, g1) = Math_random g0
      in case createQuantumMaterial g1 of
           (Throw e, g2) \<Rightarrow> (Throw e, g2)
         | (Return mat, g2) \<Rightarrow>
             (let ob =
                    \<lparr>kind = k,
                     position = (case pos of None \<Rightarrow> Vector3 0 0 0 | Some p \<Rightarrow> p),
                     qsize = (case sz of None \<Rightarrow> Vector3 1 1 1 | Some s \<Rightarrow> s),
                     observedState = None,
                     superpositionFactor = r,
                     collapseProbability = 0.5,
                     mesh = Some \<lparr>mesh_scale = Vector3 1 1 1\<rparr>,
                     material = Some mat,
                     isHarmful = None, damage = None, isSolid = None, isOpen = None,
                     minHeight = None, maxHeight = None, targetHeight = None\<rparr>
              in case registerQuantumObject this (modify this (\<lambda>_. ob) g2) of
                   (Throw e, g3) \<Rightarrow> (Throw e, g3)
                 | (Return u, g3) \<Rightarrow> (Return this, g3)))"

text \<open>The subclass constructors rebuild mesh and material, then set their own fields.\<close>

definition QuantumObstacle_constructor :: "Vector3 option \<Rightarrow> real \<Rightarrow> nat action" where
  "QuantumObstacle_constructor pos sz g =
     (case QuantumObject_constructor Obstacle pos (Some (Vector3 sz sz sz)) g of
        (Throw e, g1) \<Rightarrow> (Throw e, g1)
      | (Return this, g1) \<Rightarrow>
          (case createQuantumMaterial g1 of
             (Throw e, g2) \<Rightarrow> (Throw e, g2)
           | (Return mat, g2) \<Rightarrow>
               (Return this,
                modify this
                  (\<lambda>ob. ob\<lparr>material := Some mat, mesh := Some \<lparr>mesh_scale = Vector3 1 1 1\<rparr>,
                            collapseProbability := 0.3\<rparr>) g2)))"

definition QuantumHazard_constructor :: "Vector3 option \<Rightarrow> real \<Rightarrow> nat action" where
  "QuantumHazard_constructor pos sz g =
     (case QuantumObject_constructor Hazard pos (Some (Vector3 sz sz sz)) g of
        (Throw e, g1) \<Rightarrow> (Throw e, g1)
      | (Return this, g1) \<Rightarrow>
          (case createQuantumMaterial g1 of
             (Throw e, g2) \<Rightarrow> (Throw e, g2)
           | (Return mat, g2) \<Rightarrow>
               (Return this,
                modify this
                  (\<lambda>ob. ob\<lparr>material := Some mat, mesh := Some \<lparr>mesh_scale = Vector3 1 1 1\<rparr>,
                            damage := Some 20, isHarmful := Some True,
                            collapseProbability := 0.7\<rparr>) g2)))"

section \<open>The click on a quantum object\<close>

text \<open>
  \<open>Player.handleClick\<close>, from the point where the ray has hit a clickable object
  whose parent is \<open>quantumObject\<close>.
\<close>

definition handleClick_hit :: "nat \<Rightarrow> unit action" where
  "handleClick_hit quantumObject g =
     (if observedState (heap g quantumObject) = None then
        (case collapse quantumObject Undefined g of
           (Throw e, g1) \<Rightarrow> (Throw e, g1)
         | (Return state, g1) \<Rightarrow> updateScore 5 g1)
      else (Return (), g))"

section \<open>Reading the trace, and a sample session\<close>

text \<open>The \<open>setObserverMode\<close> calls recorded in a trace, in order.\<close>

fun setObserverMode_calls :: "event list \<Rightarrow> (nat \<times> bool) list" where
  "setObserverMode_calls [] = []"
| "setObserverMode_calls (CallSetObserverMode r b # es) = (r, b) # setObserverMode_calls es"
| "setObserverMode_calls (e # es) = setObserverMode_calls es"

text \<open>
  A session right after \<open>new Game()\<close>: no object yet, full energy, the page elements in
  place, and a shader material with an opacity and without a color. Every random draw
  is \<open>0.1\<close>.
\<close>

definition new_game :: Game where
  "new_game =
     \<lparr>score = 0, quantum = QuantumSystem_constructor,
      heap = (\<lambda>r. \<lparr>kind = Base, position = Vector3 0 0 0, qsize = Vector3 1 1 1,
                    observedState = None, superpositionFactor = 0, collapseProbability = 0.5,
                    mesh = None, material = None, isHarmful = None, damage = None,
                    isSolid = None, isOpen = None, minHeight = None, maxHeight = None,
                    targetHeight = None\<rparr>),
      next_ref = 0,
      document = \<lparr>quantum_fill = Some 100, observerStatus = Some ''OFF'', scoreValue = Some 0\<rparr>,
      random_stream = (\<lambda>n. 0.1), random_used = 0, trace = [],
      shaderMaterial = \<lparr>opacity = Some 1, color = None\<rparr>\<rparr>"

text \<open>The same session on a page that lacks the \<open>scoreValue\<close> element.\<close>

definition new_game_no_scoreValue :: Game where
  "new_game_no_scoreValue = new_game\<lparr>document := (document new_game)\<lparr>scoreValue := None\<rparr>\<rparr>"

text \<open>Sessions holding one object of a class, built by its constructor at the origin.\<close>

definition game_with_object :: Game where
  "game_with_object = snd (QuantumObject_constructor Base None None new_game)"

definition game_with_obstacle :: Game where
  "game_with_obstacle = snd (QuantumObstacle_constructor (Some (Vector3 0 0 0)) 2 new_game)"

definition game_with_hazard :: Game where
  "game_with_hazard = snd (QuantumHazard_constructor (Some (Vector3 0 0 0)) 2 new_game)"

text \<open>The session with one base object after \<open>collapse(1)\<close> on it.\<close>

definition collapsed_game :: Game where
  "collapsed_game = snd (QuantumObject_collapse 0 (Forced (Some 1)) game_with_object)"

text \<open>The new session with observer mode switched on by the key handler's call.\<close>

definition observing_game :: Game where
  "observing_game = snd (toggleObserverMode None new_game)"

text \<open>The session with one obstacle and the energy used up.\<close>

definition drained_game :: Game where
  "drained_game = game_with_obstacle\<lparr>quantum := (quantum game_with_obstacle)\<lparr>currentEnergy := 0\<rparr>\<rparr>"

text \<open>
  The registry as construction keeps it: no reference twice, every reference allocated.
\<close>

definition registry_ok :: "Game \<Rightarrow> bool" where
  "registry_ok g =
     (distinct (quantumObjects (quantum g))
      \<and> list_all (\<lambda>r. r < next_ref g) (quantumObjects (quantum g)))"

text \<open>The session with one obstacle after \<open>collapse(1)\<close> on it.\<close>

definition harmful_obstacle_game :: Game where
  "harmful_obstacle_game = snd (QuantumObstacle_collapse 0 (Forced (Some 1)) game_with_obstacle)"

text \<open>
  The broadcast in the spec's words: \<open>setObserverMode(newState)\<close> run on every object
  of the list, one after the other in the order of the list, each call noted in the
  trace before it runs. The state that results is the state the last call leaves.
\<close>

fun broadcast_setObserverMode :: "bool \<Rightarrow> nat list \<Rightarrow> Game \<Rightarrow> Game" where
  "broadcast_setObserverMode newState [] g = g"
| "broadcast_setObserverMode newState (obj # objs) g =
     broadcast_setObserverMode newState objs
       (snd (setObserverMode obj newState
               (g\<lparr>trace := trace g @ [CallSetObserverMode obj newState]\<rparr>)))"

section \<open>Frame lemmas\<close>

text \<open>What each step leaves alone, projection by projection.\<close>

lemma updateVisualState_Return: "fst (updateVisualState this g) = Return ()"
  by (simp add: updateVisualState_def Let_def split: option.splits)

lemma updateVisualState_frame:
  "trace (snd (updateVisualState this g)) = trace g"
  "quantum (snd (updateVisualState this g)) = quantum g"
  "score (snd (updateVisualState this g)) = score g"
  "document (snd (updateVisualState this g)) = document g"
  "random_used (snd (updateVisualState this g)) = random_used g"
  "random_stream (snd (updateVisualState this g)) = random_stream g"
  "r \<noteq> this \<Longrightarrow> heap (snd (updateVisualState this g)) r = heap g r"
  by (simp_all add: updateVisualState_def modify_def Let_def split: option.splits)

lemma set_opacity_fields:
  "observedState (set_opacity v ob) = observedState ob"
  "position (set_opacity v ob) = position ob"
  "kind (set_opacity v ob) = kind ob"
  "qsize (set_opacity v ob) = qsize ob"
  "isHarmful (set_opacity v ob) = isHarmful ob"
  "superpositionFactor (set_opacity v ob) = superpositionFactor ob"
  "collapseProbability (set_opacity v ob) = collapseProbability ob"
  "mesh (set_opacity v ob) = mesh ob"
  by (simp_all add: set_opacity_def split: option.splits)

lemma updateVisualState_fields:
  "observedState (heap (snd (updateVisualState this g)) r) = observedState (heap g r)"
  "position (heap (snd (updateVisualState this g)) r) = position (heap g r)"
  "kind (heap (snd (updateVisualState this g)) r) = kind (heap g r)"
  "qsize (heap (snd (updateVisualState this g)) r) = qsize (heap g r)"
  "isHarmful (heap (snd (updateVisualState this g)) r) = isHarmful (heap g r)"
  "superpositionFactor (heap (snd (updateVisualState this g)) r) = superpositionFactor (heap g r)"
  "collapseProbability (heap (snd (updateVisualState this g)) r) = collapseProbability (heap g r)"
  by (simp_all add: updateVisualState_def modify_def Let_def set_opacity_fields split: option.splits)


lemma Math_random_frame:
  "trace (snd (Math_random g)) = trace g"
  "quantum (snd (Math_random g)) = quantum g"
  "score (snd (Math_random g)) = score g"
  "document (snd (Math_random g)) = document g"
  "heap (snd (Math_random g)) = heap g"
  by (simp_all add: Math_random_def)

lemma modify_frame:
  "trace (modify this f g) = trace g"
  "quantum (modify this f g) = quantum g"
  "score (modify this f g) = score g"
  "document (modify this f g) = document g"
  "random_used (modify this f g) = random_used g"
  "random_stream (modify this f g) = random_stream g"
  "heap (modify this f g) r = (if r = this then f (heap g this) else heap g r)"
  by (simp_all add: modify_def)

lemmas collapse_simps = QuantumObject_collapse_def Let_def case_prod_unfold
  updateVisualState_Return createCollapseEffect_def updateScore_def
  updateVisualState_frame updateVisualState_fields Math_random_frame modify_frame

lemma QuantumObject_collapse_forced_state:
  "observedState (heap (snd (QuantumObject_collapse this (Forced v) g)) this) = v"
  by (simp add: collapse_simps split: forced.splits option.splits)

lemma QuantumObject_collapse_unforced_state:
  "observedState (heap (snd (QuantumObject_collapse this Undefined g)) this) =
     Some (if random_stream g (random_used g) < collapseProbability (heap g this) then 1 else 0)"
  by (simp add: collapse_simps Math_random_def split: forced.splits option.splits)

lemma QuantumObject_collapse_trace:
  "trace (snd (QuantumObject_collapse this fs g)) =
     trace g @ [CreateCollapseEffect (position (heap g this)), UpdateScore 10]"
  by (simp add: collapse_simps split: forced.splits option.splits)

lemma QuantumObject_collapse_score:
  "score (snd (QuantumObject_collapse this fs g)) = score g + 10"
  by (simp add: collapse_simps split: forced.splits option.splits)

lemma QuantumObject_collapse_fst:
  "fst (QuantumObject_collapse this fs g) =
     (if scoreValue (document g) = None then Throw TypeError
      else Return (observedState (heap (snd (QuantumObject_collapse this fs g)) this)))"
  by (simp add: collapse_simps split: forced.splits option.splits)

lemma QuantumObject_collapse_frame:
  "quantum (snd (QuantumObject_collapse this fs g)) = quantum g"
  "r \<noteq> this \<Longrightarrow> heap (snd (QuantumObject_collapse this fs g)) r = heap g r"
  "kind (heap (snd (QuantumObject_collapse this fs g)) r) = kind (heap g r)"
  "position (heap (snd (QuantumObject_collapse this fs g)) r) = position (heap g r)"
  "qsize (heap (snd (QuantumObject_collapse this fs g)) r) = qsize (heap g r)"
  by (simp_all add: collapse_simps modify_def Math_random_def split: forced.splits option.splits)


lemma QuantumObject_collapse_never_null:
  "fs \<noteq> Forced None \<Longrightarrow>
     observedState (heap (snd (QuantumObject_collapse this fs g)) this) \<noteq> None"
  by (cases fs) (simp_all add: QuantumObject_collapse_forced_state QuantumObject_collapse_unforced_state)

lemma assign_opacity_frame:
  "trace (snd (assign_mesh_material_opacity this v g)) = trace g"
  "quantum (snd (assign_mesh_material_opacity this v g)) = quantum g"
  "score (snd (assign_mesh_material_opacity this v g)) = score g"
  "document (snd (assign_mesh_material_opacity this v g)) = document g"
  "r \<noteq> this \<Longrightarrow> heap (snd (assign_mesh_material_opacity this v g)) r = heap g r"
  "observedState (heap (snd (assign_mesh_material_opacity this v g)) r) = observedState (heap g r)"
  "kind (heap (snd (assign_mesh_material_opacity this v g)) r) = kind (heap g r)"
  "position (heap (snd (assign_mesh_material_opacity this v g)) r) = position (heap g r)"
  "qsize (heap (snd (assign_mesh_material_opacity this v g)) r) = qsize (heap g r)"
  "isHarmful (heap (snd (assign_mesh_material_opacity this v g)) r) = isHarmful (heap g r)"
  by (simp_all add: assign_mesh_material_opacity_def modify_def Let_def split: option.splits)

lemma material_color_set_frame:
  "trace (snd (material_color_set this c g)) = trace g"
  "quantum (snd (material_color_set this c g)) = quantum g"
  "score (snd (material_color_set this c g)) = score g"
  "document (snd (material_color_set this c g)) = document g"
  "r \<noteq> this \<Longrightarrow> heap (snd (material_color_set this c g)) r = heap g r"
  "observedState (heap (snd (material_color_set this c g)) r) = observedState (heap g r)"
  "kind (heap (snd (material_color_set this c g)) r) = kind (heap g r)"
  "position (heap (snd (material_color_set this c g)) r) = position (heap g r)"
  "qsize (heap (snd (material_color_set this c g)) r) = qsize (heap g r)"
  "isHarmful (heap (snd (material_color_set this c g)) r) = isHarmful (heap g r)"
  by (simp_all add: material_color_set_def modify_def Let_def split: option.splits)

lemma guarded_color_set_Return: "fst (guarded_color_set this c g) = Return ()"
  by (simp add: guarded_color_set_def material_color_set_def split: option.splits)

lemma guarded_color_set_frame:
  "trace (snd (guarded_color_set this c g)) = trace g"
  "quantum (snd (guarded_color_set this c g)) = quantum g"
  "score (snd (guarded_color_set this c g)) = score g"
  "document (snd (guarded_color_set this c g)) = document g"
  "r \<noteq> this \<Longrightarrow> heap (snd (guarded_color_set this c g)) r = heap g r"
  "observedState (heap (snd (guarded_color_set this c g)) r) = observedState (heap g r)"
  "kind (heap (snd (guarded_color_set this c g)) r) = kind (heap g r)"
  "position (heap (snd (guarded_color_set this c g)) r) = position (heap g r)"
  "qsize (heap (snd (guarded_color_set this c g)) r) = qsize (heap g r)"
  "isHarmful (heap (snd (guarded_color_set this c g)) r) = isHarmful (heap g r)"
  by (simp_all add: guarded_color_set_def material_color_set_frame split: option.splits)

lemmas QuantumObject_collapse_proj = QuantumObject_collapse_trace QuantumObject_collapse_score
  QuantumObject_collapse_frame

lemmas variant_defs = QuantumBridge_collapse_def QuantumElevator_collapse_def
  QuantumDoor_collapse_def QuantumHazard_collapse_def QuantumPlatform_collapse_def
  QuantumObstacle_collapse_def

lemmas helper_frames = assign_opacity_frame material_color_set_frame guarded_color_set_frame
  guarded_color_set_Return modify_frame


lemma variant_collapse_proj:
  assumes "V \<in> {QuantumBridge_collapse, QuantumElevator_collapse, QuantumDoor_collapse,
      QuantumHazard_collapse, QuantumPlatform_collapse, QuantumObstacle_collapse, QuantumObject_collapse}"
  shows "trace (snd (V this fs g)) =
           trace g @ [CreateCollapseEffect (position (heap g this)), UpdateScore 10]"
    and "quantum (snd (V this fs g)) = quantum g"
    and "score (snd (V this fs g)) = score g + 10"
    and "r \<noteq> this \<Longrightarrow> heap (snd (V this fs g)) r = heap g r"
    and "observedState (heap (snd (V this fs g)) this) =
           observedState (heap (snd (QuantumObject_collapse this fs g)) this)"
    and "kind (heap (snd (V this fs g)) r) = kind (heap g r)"
    and "position (heap (snd (V this fs g)) r) = position (heap g r)"
    and "qsize (heap (snd (V this fs g)) r) = qsize (heap g r)"
  using assms
  by (auto simp add: variant_defs case_prod_unfold helper_frames QuantumObject_collapse_proj
      split: completion.splits)

lemma collapse_cases:
  "\<exists>V \<in> {QuantumBridge_collapse, QuantumElevator_collapse, QuantumDoor_collapse,
      QuantumHazard_collapse, QuantumPlatform_collapse, QuantumObstacle_collapse, QuantumObject_collapse}.
     collapse this fs g = V this fs g"
  by (simp add: collapse_def split: Kind.splits)

lemma collapse_proj:
  shows "trace (snd (collapse this fs g)) =
     trace g @ [CreateCollapseEffect (position (heap g this)), UpdateScore 10]"
  and "quantum (snd (collapse this fs g)) = quantum g"
  and "score (snd (collapse this fs g)) = score g + 10"
  and "r \<noteq> this \<Longrightarrow> heap (snd (collapse this fs g)) r = heap g r"
  and "observedState (heap (snd (collapse this fs g)) this) =
     observedState (heap (snd (QuantumObject_collapse this fs g)) this)"
  and "kind (heap (snd (collapse this fs g)) r) = kind (heap g r)"
  and "position (heap (snd (collapse this fs g)) r) = position (heap g r)"
  and "qsize (heap (snd (collapse this fs g)) r) = qsize (heap g r)"
proof -
  obtain V where V: "V \<in> {QuantumBridge_collapse, QuantumElevator_collapse, QuantumDoor_collapse,
      QuantumHazard_collapse, QuantumPlatform_collapse, QuantumObstacle_collapse, QuantumObject_collapse}"
    and eq: "collapse this fs g = V this fs g"
    using collapse_cases [of this fs g] by blast
  show "trace (snd (collapse this fs g)) =
     trace g @ [CreateCollapseEffect (position (heap g this)), UpdateScore 10]"
    unfolding eq by (rule variant_collapse_proj(1) [OF V])
  show "quantum (snd (collapse this fs g)) = quantum g"
    unfolding eq by (rule variant_collapse_proj(2) [OF V])
  show "score (snd (collapse this fs g)) = score g + 10"
    unfolding eq by (rule variant_collapse_proj(3) [OF V])
  show "r \<noteq> this \<Longrightarrow> heap (snd (collapse this fs g)) r = heap g r"
    unfolding eq by (rule variant_collapse_proj(4) [OF V])
  show "observedState (heap (snd (collapse this fs g)) this) =
     observedState (heap (snd (QuantumObject_collapse this fs g)) this)"
    unfolding eq by (rule variant_collapse_proj(5) [OF V])
  show "kind (heap (snd (collapse this fs g)) r) = kind (heap g r)"
    unfolding eq by (rule variant_collapse_proj(6) [OF V])
  show "position (heap (snd (collapse this fs g)) r) = position (heap g r)"
    unfolding eq by (rule variant_collapse_proj(7) [OF V])
  show "qsize (heap (snd (collapse this fs g)) r) = qsize (heap g r)"
    unfolding eq by (rule variant_collapse_proj(8) [OF V])
qed

lemma setObserverMode_calls_append:
  "setObserverMode_calls (xs @ ys) = setObserverMode_calls xs @ setObserverMode_calls ys"
  by (induction xs rule: setObserverMode_calls.induct) simp_all

lemma setObserverMode_Return: "fst (setObserverMode this b g) = Return ()"
  by (simp add: setObserverMode_def case_prod_unfold Let_def split: completion.splits)

lemma setObserverMode_noop:
  "\<not> b \<or> observedState (heap g this) \<noteq> None \<Longrightarrow> setObserverMode this b g = (Return (), g)"
  by (auto simp add: setObserverMode_def)

lemma setObserverMode_quantum: "quantum (snd (setObserverMode this b g)) = quantum g"
  by (simp add: setObserverMode_def case_prod_unfold Let_def collapse_proj Math_random_frame
      split: completion.splits)

lemma setObserverMode_trace_calls:
  "setObserverMode_calls (trace (snd (setObserverMode this b g))) = setObserverMode_calls (trace g)"
  by (simp add: setObserverMode_def case_prod_unfold Let_def collapse_proj Math_random_frame
      setObserverMode_calls_append split: completion.splits)

lemma setObserverMode_heap_other:
  "r \<noteq> this \<Longrightarrow> heap (snd (setObserverMode this b g)) r = heap g r"
  by (simp add: setObserverMode_def case_prod_unfold Let_def collapse_proj Math_random_frame
      split: completion.splits)

lemma setObserverMode_keeps_collapsed:
  "observedState (heap g x) \<noteq> None \<Longrightarrow>
     observedState (heap (snd (setObserverMode this b g)) x) = observedState (heap g x)"
  by (cases "x = this") (simp_all add: setObserverMode_noop setObserverMode_heap_other)

lemma forEach_setObserverMode_Return: "fst (forEach_setObserverMode objs g) = Return ()"
proof (induction objs arbitrary: g)
  case Nil
  show ?case by simp
next
  case (Cons obj objs)
  show ?case
    using setObserverMode_Return [of obj]
    by (simp add: Let_def case_prod_unfold Cons.IH split: completion.splits)
qed

lemma forEach_setObserverMode_quantum:
  "quantum (snd (forEach_setObserverMode objs g)) = quantum g"
proof (induction objs arbitrary: g)
  case Nil
  show ?case by simp
next
  case (Cons obj objs)
  show ?case
    by (simp add: Let_def case_prod_unfold Cons.IH setObserverMode_Return setObserverMode_quantum)
qed

lemma forEach_setObserverMode_calls:
  "setObserverMode_calls (trace (snd (forEach_setObserverMode objs g))) =
     setObserverMode_calls (trace g) @ map (\<lambda>obj. (obj, observerMode (quantum g))) objs"
proof (induction objs arbitrary: g)
  case Nil
  show ?case by simp
next
  case (Cons obj objs)
  show ?case
    by (simp add: Let_def case_prod_unfold Cons.IH setObserverMode_Return setObserverMode_quantum
        setObserverMode_trace_calls setObserverMode_calls_append)
qed

lemma forEach_setObserverMode_keeps_collapsed:
  "observedState (heap g x) \<noteq> None \<Longrightarrow>
     observedState (heap (snd (forEach_setObserverMode objs g)) x) = observedState (heap g x)"
proof (induction objs arbitrary: g)
  case Nil
  show ?case by simp
next
  case (Cons obj objs)
  let ?g0 = "g\<lparr>trace := trace g @ [CallSetObserverMode obj (observerMode (quantum g))]\<rparr>"
  let ?g1 = "snd (setObserverMode obj (observerMode (quantum g)) ?g0)"
  have keep: "observedState (heap ?g1 x) = observedState (heap g x)"
    using setObserverMode_keeps_collapsed [of ?g0 x obj] Cons.prems by simp
  then have "observedState (heap (snd (forEach_setObserverMode objs ?g1)) x) = observedState (heap g x)"
    using Cons.IH [of ?g1] Cons.prems by simp
  then show ?case
    by (simp add: Let_def case_prod_unfold setObserverMode_Return)
qed

subsection \<open>The system's methods\<close>

lemma updateQuantumState_Return: "fst (updateQuantumState r d t g) = Return ()"
  by (simp add: updateQuantumState_def getSuperpositionState_def Let_def updateVisualState_Return)

lemma updateQuantumState_quantum: "quantum (snd (updateQuantumState r d t g)) = quantum g"
  by (simp add: updateQuantumState_def getSuperpositionState_def Let_def updateVisualState_frame
      modify_frame)

lemma updateQuantumState_observedState:
  "observedState (heap (snd (updateQuantumState r d t g)) x) = observedState (heap g x)"
  by (simp add: updateQuantumState_def getSuperpositionState_def Let_def updateVisualState_fields
      modify_frame)

lemma forEach_updateQuantumState_Return: "fst (forEach_updateQuantumState objs d g) = Return ()"
proof (induction objs arbitrary: g)
  case Nil
  show ?case by simp
next
  case (Cons obj objs)
  show ?case
    by (simp add: case_prod_unfold updateQuantumState_Return Cons.IH)
qed

lemma forEach_updateQuantumState_quantum:
  "quantum (snd (forEach_updateQuantumState objs d g)) = quantum g"
proof (induction objs arbitrary: g)
  case Nil
  show ?case by simp
next
  case (Cons obj objs)
  show ?case
    by (simp add: case_prod_unfold updateQuantumState_Return updateQuantumState_quantum Cons.IH)
qed

lemma forEach_updateQuantumState_observedState:
  "observedState (heap (snd (forEach_updateQuantumState objs d g)) x) = observedState (heap g x)"
proof (induction objs arbitrary: g)
  case Nil
  show ?case by simp
next
  case (Cons obj objs)
  show ?case
    by (simp add: case_prod_unfold updateQuantumState_Return updateQuantumState_observedState Cons.IH)
qed

lemma toggleObserverMode_Return: "fst (toggleObserverMode fs g) = Return ()"
  by (simp add: toggleObserverMode_def Let_def forEach_setObserverMode_Return)

lemma toggleObserverMode_refused:
  "\<not> observerMode (quantum g) \<Longrightarrow> currentEnergy (quantum g) \<le> 0 \<Longrightarrow>
     toggleObserverMode None g = (Return (), g)"
  by (simp add: toggleObserverMode_def)

lemma toggleObserverMode_forced_quantum:
  "quantum (snd (toggleObserverMode (Some b) g)) =
     (quantum g)\<lparr>observerMode := b, uniforms_observerMode := (if b then 1 else 0)\<rparr>"
  by (simp add: toggleObserverMode_def Let_def forEach_setObserverMode_quantum split: option.splits)

lemma toggleObserverMode_flip_quantum:
  "observerMode (quantum g) \<or> 0 < currentEnergy (quantum g) \<Longrightarrow>
   quantum (snd (toggleObserverMode None g)) =
     (quantum g)\<lparr>observerMode := \<not> observerMode (quantum g),
                  uniforms_observerMode := (if observerMode (quantum g) then 0 else 1)\<rparr>"
  by (auto simp add: toggleObserverMode_def Let_def forEach_setObserverMode_quantum split: option.splits)

lemma toggleObserverMode_keeps_collapsed:
  "observedState (heap g x) \<noteq> None \<Longrightarrow>
     observedState (heap (snd (toggleObserverMode fs g)) x) = observedState (heap g x)"
  by (simp add: toggleObserverMode_def Let_def forEach_setObserverMode_keeps_collapsed
      split: option.splits)

lemma forEach_setObserverMode_broadcast:
  "snd (forEach_setObserverMode objs g) =
     broadcast_setObserverMode (observerMode (quantum g)) objs g"
proof (induction objs arbitrary: g)
  case Nil
  show ?case by simp
next
  case (Cons obj objs)
  show ?case
    by (simp add: Let_def case_prod_unfold Cons.IH setObserverMode_Return setObserverMode_quantum)
qed

lemma toggleObserverMode_flip_state:
  "observerMode (quantum g) \<or> 0 < currentEnergy (quantum g) \<Longrightarrow>
   snd (toggleObserverMode None g) =
     broadcast_setObserverMode (\<not> observerMode (quantum g)) (quantumObjects (quantum g))
       (g\<lparr>document :=
            (case observerStatus (document g) of
               None \<Rightarrow> document g
             | Some old \<Rightarrow>
                 (document g)
                   \<lparr>observerStatus := Some (if observerMode (quantum g) then ''OFF'' else ''ON'')\<rparr>),
          quantum := (quantum g)
              \<lparr>observerMode := \<not> observerMode (quantum g),
               uniforms_observerMode := (if observerMode (quantum g) then 0 else 1)\<rparr>\<rparr>)"
  by (auto simp add: toggleObserverMode_def Let_def forEach_setObserverMode_broadcast
      split: option.splits)

lemma toggleObserverMode_calls:
  "\<not> (fs = None \<and> \<not> observerMode (quantum g) \<and> currentEnergy (quantum g) \<le> 0) \<Longrightarrow>
   setObserverMode_calls (trace (snd (toggleObserverMode fs g))) =
     setObserverMode_calls (trace g) @
     map (\<lambda>obj. (obj, case fs of Some b \<Rightarrow> b | None \<Rightarrow> \<not> observerMode (quantum g)))
       (quantumObjects (quantum g))"
  by (auto simp add: toggleObserverMode_def Let_def forEach_setObserverMode_calls split: option.splits)


lemma handleObserverModeEnergy_quantum:
  "quantum (snd (handleObserverModeEnergy delta g)) =
     (if observerMode (quantum g) then
        (let e = max 0 (currentEnergy (quantum g) - energyDrainRate (quantum g) * delta) in
         if e \<le> 0 then (quantum g)\<lparr>currentEnergy := e, observerMode := False, uniforms_observerMode := 0\<rparr>
         else (quantum g)\<lparr>currentEnergy := e\<rparr>)
      else (quantum g)\<lparr>currentEnergy :=
              min (observerModeEnergy (quantum g))
                  (currentEnergy (quantum g) + energyRechargeRate (quantum g) * delta)\<rparr>)"
  by (simp add: handleObserverModeEnergy_def Let_def case_prod_unfold toggleObserverMode_Return
      toggleObserverMode_forced_quantum split: option.splits)

lemma handleObserverModeEnergy_fst:
  "fst (handleObserverModeEnergy delta g) =
     (if quantum_fill (document g) = None then Throw TypeError else Return ())"
  by (simp add: handleObserverModeEnergy_def Let_def case_prod_unfold toggleObserverMode_Return
      split: option.splits)

lemma handleObserverModeEnergy_keeps_collapsed:
  "observedState (heap g x) \<noteq> None \<Longrightarrow>
     observedState (heap (snd (handleObserverModeEnergy delta g)) x) = observedState (heap g x)"
  by (simp add: handleObserverModeEnergy_def Let_def case_prod_unfold toggleObserverMode_Return
      toggleObserverMode_keeps_collapsed split: option.splits)

lemma QuantumSystem_update_keeps_collapsed:
  "observedState (heap g x) \<noteq> None \<Longrightarrow>
     observedState (heap (snd (QuantumSystem_update delta g)) x) = observedState (heap g x)"
  by (simp add: QuantumSystem_update_def updateUniformTime_def updateQuantumObjects_def
      case_prod_unfold handleObserverModeEnergy_keeps_collapsed
      forEach_updateQuantumState_observedState split: completion.splits)

lemma QuantumSystem_update_energy:
  "currentEnergy (quantum (snd (QuantumSystem_update delta g))) =
     currentEnergy (quantum (snd (handleObserverModeEnergy delta g)))
   \<and> observerMode (quantum (snd (QuantumSystem_update delta g))) =
     observerMode (quantum (snd (handleObserverModeEnergy delta g)))
   \<and> observerModeEnergy (quantum (snd (QuantumSystem_update delta g))) =
     observerModeEnergy (quantum g)"
  by (simp add: QuantumSystem_update_def updateUniformTime_def updateQuantumObjects_def
      case_prod_unfold handleObserverModeEnergy_quantum 
      forEach_updateQuantumState_quantum Let_def split: completion.splits)

section \<open>The wave helpers are pure\<close>

text \<open>
  Claim C5. For all positions and times, \<open>getWaveFunction\<close> and
  \<open>getSuperpositionState\<close> return normally, leave the whole game state as it was, and
  return a value fixed by the position and the time alone: the same arguments give the
  same value in any two states.
\<close>

theorem wave_helpers_pure:
  "snd (getWaveFunction p t g) = g
   \<and> snd (getSuperpositionState p t g) = g
   \<and> fst (getWaveFunction p t g) = fst (getWaveFunction p t g')
   \<and> fst (getSuperpositionState p t g) = fst (getSuperpositionState p t g')
   \<and> (\<exists>v. fst (getWaveFunction p t g) = Return v)
   \<and> (\<exists>v. fst (getSuperpositionState p t g) = Return v)"
  by (simp add: getWaveFunction_def getSuperpositionState_def Let_def)

section \<open>Evaluating the sample sessions\<close>

lemmas construct_simps = new_game_def game_with_object_def game_with_obstacle_def
  game_with_hazard_def QuantumObject_constructor_def QuantumObstacle_constructor_def
  QuantumHazard_constructor_def createQuantumMaterial_def registerQuantumObject_def
  QuantumSystem_constructor_def Math_random_def modify_def Let_def

lemmas run_simps = QuantumObject_collapse_def updateVisualState_def createCollapseEffect_def
  updateScore_def set_opacity_def

section \<open>A collapsed object is no longer animated\<close>

text \<open>
  Claim C6. Once \<open>observedState\<close> of an object is no longer \<open>null\<close>, a call of
  \<open>updateQuantumState(delta, time)\<close> on it returns at once and changes nothing: the
  state after the call is the state before it, so \<open>observedState\<close> and
  \<open>superpositionFactor\<close> stay as they were, in this call and in every later one.
\<close>

theorem updateQuantumState_collapsed_noop:
  "observedState (heap g this) \<noteq> None \<Longrightarrow>
     updateQuantumState this delta time g = (Return (), g)
     \<and> observedState (heap (snd (updateQuantumState this delta time g)) this) =
         observedState (heap g this)
     \<and> superpositionFactor (heap (snd (updateQuantumState this delta time g)) this) =
         superpositionFactor (heap g this)"
  by (simp add: updateQuantumState_def)

theorem updateQuantumState_collapsed_noop_witness:
  "observedState (heap collapsed_game 0) = Some 1
   \<and> updateQuantumState 0 (1 / 60) 2 collapsed_game = (Return (), collapsed_game)
   \<and> superpositionFactor (heap (snd (updateQuantumState 0 (1 / 60) 2 collapsed_game)) 0) = 0.1"
  using updateQuantumState_collapsed_noop [of collapsed_game 0 "1 / 60" 2]
  by (simp add: collapsed_game_def construct_simps run_simps)

lemmas toggle_simps = toggleObserverMode_def setObserverMode_def collapse_def
  QuantumObstacle_collapse_def guarded_color_set_def material_color_set_def

section \<open>The energy state machine\<close>

text \<open>
  Claim C3. A step of \<open>handleObserverModeEnergy(delta)\<close> while observer mode is on sets
  the energy to \<open>max(0, energy - drainRate * delta)\<close> and leaves observer mode on exactly
  when energy is left; a step while it is off sets the energy to
  \<open>min(maxEnergy, energy + rechargeRate * delta)\<close>. For a time step \<open>delta \<ge> 0\<close>, rates
  that are not negative and an energy in \<open>[0, maxEnergy]\<close>, the energy is in
  \<open>[0, maxEnergy]\<close> again after the step, and after a whole \<open>update(delta)\<close>, which
  leaves the energy and observer mode exactly as its energy step leaves them. A new
  system drains 15 per second, recharges 8 per second, and holds 100 of at most 100.
\<close>

theorem energy_stays_in_range:
  "(let q = quantum g; q' = quantum (snd (handleObserverModeEnergy delta g)) in
      observerModeEnergy q' = observerModeEnergy q
      \<and> (observerMode q \<longrightarrow>
            currentEnergy q' = max 0 (currentEnergy q - energyDrainRate q * delta)
            \<and> observerMode q' = (0 < currentEnergy q'))
      \<and> (\<not> observerMode q \<longrightarrow>
            currentEnergy q' =
              min (observerModeEnergy q) (currentEnergy q + energyRechargeRate q * delta)
            \<and> \<not> observerMode q'))
   \<and> (0 \<le> delta \<and> 0 \<le> currentEnergy (quantum g)
        \<and> currentEnergy (quantum g) \<le> observerModeEnergy (quantum g)
        \<and> 0 \<le> energyDrainRate (quantum g) \<and> 0 \<le> energyRechargeRate (quantum g) \<longrightarrow>
        (let q' = quantum (snd (handleObserverModeEnergy delta g)) in
           0 \<le> currentEnergy q' \<and> currentEnergy q' \<le> observerModeEnergy q')
        \<and> (let q'' = quantum (snd (QuantumSystem_update delta g)) in
             0 \<le> currentEnergy q'' \<and> currentEnergy q'' \<le> observerModeEnergy q''))
   \<and> currentEnergy (quantum (snd (QuantumSystem_update delta g))) =
       currentEnergy (quantum (snd (handleObserverModeEnergy delta g)))
   \<and> observerMode (quantum (snd (QuantumSystem_update delta g))) =
       observerMode (quantum (snd (handleObserverModeEnergy delta g)))
   \<and> observerModeEnergy (quantum (snd (QuantumSystem_update delta g))) =
       observerModeEnergy (quantum g)
   \<and> energyDrainRate QuantumSystem_constructor = 15
   \<and> energyRechargeRate QuantumSystem_constructor = 8
   \<and> observerModeEnergy QuantumSystem_constructor = 100
   \<and> currentEnergy QuantumSystem_constructor = 100"
proof -
  have step: "let q = quantum g; q' = quantum (snd (handleObserverModeEnergy delta g)) in
      observerModeEnergy q' = observerModeEnergy q
      \<and> (observerMode q \<longrightarrow>
            currentEnergy q' = max 0 (currentEnergy q - energyDrainRate q * delta)
            \<and> observerMode q' = (0 < currentEnergy q'))
      \<and> (\<not> observerMode q \<longrightarrow>
            currentEnergy q' =
              min (observerModeEnergy q) (currentEnergy q + energyRechargeRate q * delta)
            \<and> \<not> observerMode q')"
    by (auto simp add: handleObserverModeEnergy_quantum Let_def)
  have range: "(let q' = quantum (snd (handleObserverModeEnergy delta g)) in
           0 \<le> currentEnergy q' \<and> currentEnergy q' \<le> observerModeEnergy q')
        \<and> (let q'' = quantum (snd (QuantumSystem_update delta g)) in
             0 \<le> currentEnergy q'' \<and> currentEnergy q'' \<le> observerModeEnergy q'')"
    if pre: "0 \<le> delta \<and> 0 \<le> currentEnergy (quantum g)
        \<and> currentEnergy (quantum g) \<le> observerModeEnergy (quantum g)
        \<and> 0 \<le> energyDrainRate (quantum g) \<and> 0 \<le> energyRechargeRate (quantum g)"
  proof -
    define drained where "drained = energyDrainRate (quantum g) * delta"
    define charged where "charged = energyRechargeRate (quantum g) * delta"
    have drain: "0 \<le> drained"
      using pre by (simp add: drained_def)
    have charge: "0 \<le> charged"
      using pre by (simp add: charged_def)
    have bounds: "0 \<le> currentEnergy (quantum g)"
      "currentEnergy (quantum g) \<le> observerModeEnergy (quantum g)"
      using pre by simp_all
    have one: "let q' = quantum (snd (handleObserverModeEnergy delta g)) in
           0 \<le> currentEnergy q' \<and> currentEnergy q' \<le> observerModeEnergy q'"
      using drain charge bounds
      by (auto simp add: handleObserverModeEnergy_quantum Let_def
          drained_def [symmetric] charged_def [symmetric])
    then have "let q'' = quantum (snd (QuantumSystem_update delta g)) in
             0 \<le> currentEnergy q'' \<and> currentEnergy q'' \<le> observerModeEnergy q''"
      using step by (simp add: Let_def QuantumSystem_update_energy)
    with one show ?thesis by simp
  qed
  have whole: "currentEnergy (quantum (snd (QuantumSystem_update delta g))) =
       currentEnergy (quantum (snd (handleObserverModeEnergy delta g)))
   \<and> observerMode (quantum (snd (QuantumSystem_update delta g))) =
       observerMode (quantum (snd (handleObserverModeEnergy delta g)))
   \<and> observerModeEnergy (quantum (snd (QuantumSystem_update delta g))) =
       observerModeEnergy (quantum g)"
    by (rule QuantumSystem_update_energy)
  have new: "energyDrainRate QuantumSystem_constructor = 15
   \<and> energyRechargeRate QuantumSystem_constructor = 8
   \<and> observerModeEnergy QuantumSystem_constructor = 100
   \<and> currentEnergy QuantumSystem_constructor = 100"
    by (simp add: QuantumSystem_constructor_def)
  show ?thesis
    using step range whole new by blast
qed

theorem energy_stays_in_range_witness:
  "observerMode (quantum observing_game) \<and> currentEnergy (quantum observing_game) = 100
   \<and> currentEnergy (quantum (snd (handleObserverModeEnergy 10 observing_game))) = 0
   \<and> \<not> observerMode (quantum (snd (handleObserverModeEnergy 10 observing_game)))
   \<and> 0 \<le> currentEnergy (quantum (snd (QuantumSystem_update 10 observing_game)))
   \<and> currentEnergy (quantum (snd (handleObserverModeEnergy 10 new_game))) = 100"
  using energy_stays_in_range [of observing_game 10] energy_stays_in_range [of new_game 10]
  by (simp add: observing_game_def construct_simps toggle_simps)

section \<open>Toggling observer mode\<close>

text \<open>
  Claim C4. \<open>toggleObserverMode()\<close> without an argument, with observer mode off and no
  energy left, returns without changing anything: observer mode stays off and no object
  is called. In every other case it flips observer mode and, before it returns, runs
  \<open>setObserverMode(newState)\<close> once on each registered object, in the order of the
  registry: the state it leaves is the state after the flip, with the status text and
  the shader uniform updated, taken through those calls one after the other. The calls
  noted in the trace are those of the registry, in order, and the registry itself is
  unchanged.
\<close>

theorem toggleObserverMode_gate_and_broadcast:
  "(\<not> observerMode (quantum g) \<and> currentEnergy (quantum g) \<le> 0 \<longrightarrow>
      toggleObserverMode None g = (Return (), g))
   \<and> (observerMode (quantum g) \<or> 0 < currentEnergy (quantum g) \<longrightarrow>
        fst (toggleObserverMode None g) = Return ()
        \<and> observerMode (quantum (snd (toggleObserverMode None g))) = (\<not> observerMode (quantum g))
        \<and> quantumObjects (quantum (snd (toggleObserverMode None g))) = quantumObjects (quantum g)
        \<and> setObserverMode_calls (trace (snd (toggleObserverMode None g))) =
            setObserverMode_calls (trace g) @
            map (\<lambda>obj. (obj, \<not> observerMode (quantum g))) (quantumObjects (quantum g))
        \<and> snd (toggleObserverMode None g) =
            broadcast_setObserverMode (\<not> observerMode (quantum g)) (quantumObjects (quantum g))
              (g\<lparr>document :=
                   (case observerStatus (document g) of
                      None \<Rightarrow> document g
                    | Some old \<Rightarrow>
                        (document g)
                          \<lparr>observerStatus :=
                             Some (if observerMode (quantum g) then ''OFF'' else ''ON'')\<rparr>),
                 quantum := (quantum g)
                     \<lparr>observerMode := \<not> observerMode (quantum g),
                      uniforms_observerMode := (if observerMode (quantum g) then 0 else 1)\<rparr>\<rparr>))"
proof (intro conjI impI)
  assume "\<not> observerMode (quantum g) \<and> currentEnergy (quantum g) \<le> 0"
  then show "toggleObserverMode None g = (Return (), g)"
    by (simp add: toggleObserverMode_refused)
next
  assume go: "observerMode (quantum g) \<or> 0 < currentEnergy (quantum g)"
  show "fst (toggleObserverMode None g) = Return ()"
    by (rule toggleObserverMode_Return)
  show "observerMode (quantum (snd (toggleObserverMode None g))) = (\<not> observerMode (quantum g))"
    using go by (simp add: toggleObserverMode_flip_quantum)
  show "quantumObjects (quantum (snd (toggleObserverMode None g))) = quantumObjects (quantum g)"
    using go by (simp add: toggleObserverMode_flip_quantum)
  show "setObserverMode_calls (trace (snd (toggleObserverMode None g))) =
          setObserverMode_calls (trace g) @
          map (\<lambda>obj. (obj, \<not> observerMode (quantum g))) (quantumObjects (quantum g))"
    using go toggleObserverMode_calls [of None g] by auto
  show "snd (toggleObserverMode None g) =
          broadcast_setObserverMode (\<not> observerMode (quantum g)) (quantumObjects (quantum g))
            (g\<lparr>document :=
                 (case observerStatus (document g) of
                    None \<Rightarrow> document g
                  | Some old \<Rightarrow>
                      (document g)
                        \<lparr>observerStatus :=
                           Some (if observerMode (quantum g) then ''OFF'' else ''ON'')\<rparr>),
               quantum := (quantum g)
                   \<lparr>observerMode := \<not> observerMode (quantum g),
                    uniforms_observerMode := (if observerMode (quantum g) then 0 else 1)\<rparr>\<rparr>)"
    using go by (rule toggleObserverMode_flip_state)
qed

theorem toggleObserverMode_gate_and_broadcast_witness:
  "\<not> observerMode (quantum drained_game) \<and> currentEnergy (quantum drained_game) \<le> 0
   \<and> toggleObserverMode None drained_game = (Return (), drained_game)
   \<and> 0 < currentEnergy (quantum game_with_obstacle)
   \<and> observerMode (quantum (snd (toggleObserverMode None game_with_obstacle)))
   \<and> setObserverMode_calls (trace (snd (toggleObserverMode None game_with_obstacle))) = [(0, True)]
   \<and> observedState (heap game_with_obstacle 0) = None
   \<and> observedState (heap (snd (toggleObserverMode None game_with_obstacle)) 0) = Some 1
   \<and> isHarmful (heap (snd (toggleObserverMode None game_with_obstacle)) 0) = Some True
   \<and> trace (snd (toggleObserverMode None game_with_obstacle)) =
       [CallSetObserverMode 0 True, CreateCollapseEffect (Vector3 0 0 0), UpdateScore 10]"
  using toggleObserverMode_gate_and_broadcast [of drained_game]
    toggleObserverMode_gate_and_broadcast [of game_with_obstacle]
  by (simp add: drained_game_def construct_simps run_simps setObserverMode_def collapse_def
      QuantumObstacle_collapse_def guarded_color_set_def material_color_set_def)

lemmas hazard_simps = collapse_def QuantumHazard_collapse_def material_color_set_def setObserverMode_def

section \<open>A forced collapse that fails stays inside setObserverMode\<close>

lemma setObserverMode_caught:
  "b \<Longrightarrow> observedState (heap g this) = None \<Longrightarrow> random_stream g (random_used g) < 0.3 \<Longrightarrow>
   fst (collapse this Undefined (snd (Math_random g))) = Throw e \<Longrightarrow>
     setObserverMode this b g =
       (Return (),
        (snd (collapse this Undefined (snd (Math_random g))))
          \<lparr>trace := trace (snd (collapse this Undefined (snd (Math_random g)))) @ [ConsoleError e]\<rparr>)"
  by (simp add: setObserverMode_def case_prod_unfold Let_def Math_random_def)

text \<open>
  Claim C9. \<open>setObserverMode(active)\<close> always returns normally. With \<open>active\<close> false,
  or on an object that has collapsed, it changes nothing. When it is called with
  \<open>active\<close> true on a superposed object, the draw is below 0.3 and the collapse of the
  object's class throws, the exception is caught: the call returns, and what it adds to
  the state the collapse left is one \<open>console.error\<close> with that exception. So the
  loop of the broadcast returns as well, and has called every object of the list.
\<close>

theorem setObserverMode_contains_failure:
  "fst (setObserverMode this b g) = Return ()
   \<and> (\<not> b \<or> observedState (heap g this) \<noteq> None \<longrightarrow> setObserverMode this b g = (Return (), g))
   \<and> (b \<and> observedState (heap g this) = None \<and> random_stream g (random_used g) < 0.3
        \<and> fst (collapse this Undefined (snd (Math_random g))) = Throw e \<longrightarrow>
        setObserverMode this b g =
          (Return (),
           (snd (collapse this Undefined (snd (Math_random g))))
             \<lparr>trace := trace (snd (collapse this Undefined (snd (Math_random g)))) @ [ConsoleError e]\<rparr>))
   \<and> fst (forEach_setObserverMode objs g) = Return ()
   \<and> setObserverMode_calls (trace (snd (forEach_setObserverMode objs g))) =
       setObserverMode_calls (trace g) @ map (\<lambda>obj. (obj, observerMode (quantum g))) objs"
  using setObserverMode_caught [of b g this e]
  by (auto simp add: setObserverMode_Return setObserverMode_noop forEach_setObserverMode_Return
      forEach_setObserverMode_calls)

theorem setObserverMode_contains_failure_witness:
  "observedState (heap game_with_hazard 0) = None
   \<and> random_stream game_with_hazard (random_used game_with_hazard) < 0.3
   \<and> fst (collapse 0 Undefined (snd (Math_random game_with_hazard))) = Throw TypeError
   \<and> fst (setObserverMode 0 True game_with_hazard) = Return ()
   \<and> trace (snd (setObserverMode 0 True game_with_hazard)) =
       [CreateCollapseEffect (Vector3 0 0 0), UpdateScore 10, ConsoleError TypeError]
   \<and> setObserverMode 0 False game_with_hazard = (Return (), game_with_hazard)
   \<and> setObserverMode 0 True collapsed_game = (Return (), collapsed_game)"
  using setObserverMode_contains_failure [of 0 True game_with_hazard TypeError "[]"]
    setObserverMode_contains_failure [of 0 False game_with_hazard TypeError "[]"]
    setObserverMode_contains_failure [of 0 True collapsed_game TypeError "[]"]
  by (simp add: collapsed_game_def construct_simps run_simps hazard_simps)

section \<open>Collapse with a forced state of 1\<close>

text \<open>
  What \<open>collapse(1)\<close> does in every class: it sets \<open>observedState\<close> to 1, asks the
  particle system for exactly one collapse effect, at the object's position, and then
  asks the game for exactly one score increment, of 10 points; nothing else is
  requested. The base method returns 1 whenever the score can be shown, that is when
  the page has the \<open>scoreValue\<close> element.
\<close>

lemma collapse_forced_one_effects:
  "observedState (heap (snd (QuantumObject_collapse this (Forced (Some 1)) g)) this) = Some 1
   \<and> trace (snd (QuantumObject_collapse this (Forced (Some 1)) g)) =
       trace g @ [CreateCollapseEffect (position (heap g this)), UpdateScore 10]
   \<and> score (snd (QuantumObject_collapse this (Forced (Some 1)) g)) = score g + 10
   \<and> (scoreValue (document g) \<noteq> None \<longrightarrow>
        fst (QuantumObject_collapse this (Forced (Some 1)) g) = Return (Some 1))
   \<and> observedState (heap (snd (collapse this (Forced (Some 1)) g)) this) = Some 1
   \<and> trace (snd (collapse this (Forced (Some 1)) g)) =
       trace g @ [CreateCollapseEffect (position (heap g this)), UpdateScore 10]
   \<and> score (snd (collapse this (Forced (Some 1)) g)) = score g + 10"
  by (simp add: QuantumObject_collapse_forced_state QuantumObject_collapse_trace
      QuantumObject_collapse_score QuantumObject_collapse_fst collapse_proj)

text \<open>
  Claim C2 says that \<open>collapse(1)\<close> returns 1 on every quantum object. On a hazard it
  does not. The hazard built by its constructor carries the shader material of
  \<open>createQuantumMaterial\<close>, which has no color, and the page has the \<open>scoreValue\<close>
  element. \<open>QuantumHazard.collapse\<close> runs the base method, which sets \<open>observedState\<close>
  to 1 and makes the two requests, and then calls \<open>this.material.color.set\<close> without the
  check that \<open>QuantumObstacle.collapse\<close> makes first: the call throws, nothing is
  returned and \<open>isHarmful\<close> is not written. On the obstacle and on the base object built
  the same way, \<open>collapse(1)\<close> returns 1.
\<close>

theorem hazard_collapse_forced_one_throws:
  "kind (heap game_with_hazard 0) = Hazard
   \<and> material (heap game_with_hazard 0) = Some \<lparr>opacity = Some 1, color = None\<rparr>
   \<and> scoreValue (document game_with_hazard) = Some 0
   \<and> fst (collapse 0 (Forced (Some 1)) game_with_hazard) = Throw TypeError
   \<and> observedState (heap (snd (collapse 0 (Forced (Some 1)) game_with_hazard)) 0) = Some 1
   \<and> trace (snd (collapse 0 (Forced (Some 1)) game_with_hazard)) =
       [CreateCollapseEffect (Vector3 0 0 0), UpdateScore 10]
   \<and> score (snd (collapse 0 (Forced (Some 1)) game_with_hazard)) = 10
   \<and> fst (collapse 0 (Forced (Some 1)) game_with_obstacle) = Return (Some 1)
   \<and> fst (collapse 0 (Forced (Some 1)) game_with_object) = Return (Some 1)"
  by (simp add: construct_simps run_simps hazard_simps QuantumObstacle_collapse_def
      guarded_color_set_def)

section \<open>The life of observedState\<close>

lemma QuantumObject_constructor_result:
  "fst (QuantumObject_constructor k pos sz g) = Return (next_ref g)"
  "observedState (heap (snd (QuantumObject_constructor k pos sz g)) (next_ref g)) = None"
  "kind (heap (snd (QuantumObject_constructor k pos sz g)) (next_ref g)) = k"
  "quantumObjects (quantum (snd (QuantumObject_constructor k pos sz g))) =
     quantumObjects (quantum g) @ [next_ref g]"
  by (simp_all add: QuantumObject_constructor_def createQuantumMaterial_def
      registerQuantumObject_def Math_random_def modify_def Let_def)

lemma updateScore_heap: "heap (snd (updateScore n g)) = heap g"
  by (simp add: updateScore_def Let_def split: option.splits)

lemma collapse_never_null:
  "fs \<noteq> Forced None \<Longrightarrow> observedState (heap (snd (collapse this fs g)) this) \<noteq> None"
  by (simp add: collapse_proj QuantumObject_collapse_never_null)

lemma handleClick_hit_collapses:
  "observedState (heap (snd (handleClick_hit this g)) this) \<noteq> None"
  if "observedState (heap g this) = None"
  using that collapse_never_null [where fs = Undefined and this = this and g = g]
  by (simp add: handleClick_hit_def case_prod_unfold updateScore_heap split: completion.splits)

lemma handleClick_hit_noop:
  "observedState (heap g this) \<noteq> None \<Longrightarrow> handleClick_hit this g = (Return (), g)"
  by (auto simp add: handleClick_hit_def)

lemma collapse_forced_state: "observedState (heap (snd (collapse this (Forced v) g)) this) = v"
  by (simp add: collapse_proj QuantumObject_collapse_forced_state)

lemma collapse_unforced_state:
  "observedState (heap (snd (collapse this Undefined g)) this) \<in> {Some 0, Some 1}"
  by (simp add: collapse_proj QuantumObject_collapse_unforced_state)

lemma updateQuantumState_noop:
  "observedState (heap g this) \<noteq> None \<Longrightarrow> updateQuantumState this delta time g = (Return (), g)"
  by (auto simp add: updateQuantumState_def)

text \<open>
  Claim C1 says that after a collapse \<open>observedState\<close> never changes to a different
  collapsed value and never returns to \<open>null\<close>. \<open>collapse\<close> does not look at the state
  it overwrites: on the base object that \<open>collapse(1)\<close> left in state 1, a second call
  \<open>collapse(0)\<close> leaves state 0, and a call \<open>collapse(null)\<close> leaves \<open>null\<close>.
\<close>

theorem double_collapse_counterexample:
  "observedState (heap collapsed_game 0) = Some 1
   \<and> observedState (heap (snd (QuantumObject_collapse 0 (Forced (Some 0)) collapsed_game)) 0) = Some 0
   \<and> observedState (heap (snd (QuantumObject_collapse 0 (Forced (Some 0)) collapsed_game)) 0) \<noteq>
       observedState (heap collapsed_game 0)
   \<and> observedState (heap (snd (QuantumObject_collapse 0 (Forced None) collapsed_game)) 0) = None"
  by (simp add: collapsed_game_def QuantumObject_collapse_forced_state)

text \<open>
  Claim C1, as the code has it. A new object starts with \<open>observedState = null\<close>.
  A call of \<open>collapse\<close>, of any class, writes \<open>observedState\<close> whatever it was before:
  the forced value when one is given, so the state number passed, or \<open>null\<close> when
  \<open>null\<close> is passed; 0 or 1 when the argument is left out. So every call but
  \<open>collapse(null)\<close> leaves the object collapsed. The callers only call \<open>collapse()\<close>
  without an argument and check for \<open>null\<close> first: a click collapses a superposed
  object, and on a collapsed object \<open>setObserverMode\<close>, the click and
  \<open>updateQuantumState\<close> change nothing at all, and neither a toggle of observer mode nor
  a whole \<open>update(delta)\<close> of the system changes its \<open>observedState\<close>. So through them
  the state is set once and kept.
\<close>

theorem observedState_lifecycle:
  "fst (QuantumObject_constructor k pos sz g) = Return (next_ref g)
   \<and> observedState (heap (snd (QuantumObject_constructor k pos sz g)) (next_ref g)) = None
   \<and> (fs \<noteq> Forced None \<longrightarrow> observedState (heap (snd (collapse this fs g)) this) \<noteq> None)
   \<and> observedState (heap (snd (collapse this (Forced v) g)) this) = v
   \<and> observedState (heap (snd (collapse this Undefined g)) this) \<in> {Some 0, Some 1}
   \<and> (observedState (heap g this) = None \<longrightarrow>
        observedState (heap (snd (handleClick_hit this g)) this) \<noteq> None)
   \<and> (observedState (heap g this) \<noteq> None \<longrightarrow>
        setObserverMode this b g = (Return (), g)
        \<and> handleClick_hit this g = (Return (), g)
        \<and> updateQuantumState this delta time g = (Return (), g)
        \<and> observedState (heap (snd (toggleObserverMode force g)) this) = observedState (heap g this)
        \<and> observedState (heap (snd (QuantumSystem_update delta g)) this) =
            observedState (heap g this))"
proof (intro conjI impI)
  show "fst (QuantumObject_constructor k pos sz g) = Return (next_ref g)"
    by (rule QuantumObject_constructor_result)
  show "observedState (heap (snd (QuantumObject_constructor k pos sz g)) (next_ref g)) = None"
    by (rule QuantumObject_constructor_result)
  show "observedState (heap (snd (collapse this (Forced v) g)) this) = v"
    by (rule collapse_forced_state)
  show "observedState (heap (snd (collapse this Undefined g)) this) \<in> {Some 0, Some 1}"
    by (rule collapse_unforced_state)
next
  assume "fs \<noteq> Forced None"
  then show "observedState (heap (snd (collapse this fs g)) this) \<noteq> None"
    by (rule collapse_never_null)
next
  assume "observedState (heap g this) = None"
  then show "observedState (heap (snd (handleClick_hit this g)) this) \<noteq> None"
    by (rule handleClick_hit_collapses)
next
  assume collapsed: "observedState (heap g this) \<noteq> None"
  show "setObserverMode this b g = (Return (), g)"
    using collapsed by (simp add: setObserverMode_noop)
  show "handleClick_hit this g = (Return (), g)"
    using collapsed by (rule handleClick_hit_noop)
  show "updateQuantumState this delta time g = (Return (), g)"
    using collapsed by (rule updateQuantumState_noop)
  show "observedState (heap (snd (toggleObserverMode force g)) this) = observedState (heap g this)"
    using collapsed by (rule toggleObserverMode_keeps_collapsed)
  show "observedState (heap (snd (QuantumSystem_update delta g)) this) = observedState (heap g this)"
    using collapsed by (rule QuantumSystem_update_keeps_collapsed)
qed

theorem observedState_lifecycle_witness:
  "observedState (heap game_with_object 0) = None
   \<and> observedState (heap (snd (handleClick_hit 0 game_with_object)) 0) = Some 1
   \<and> observedState (heap (snd (collapse 0 (Forced (Some 0)) game_with_object)) 0) = Some 0
   \<and> observedState (heap (snd (collapse 0 (Forced None) collapsed_game)) 0) = None
   \<and> observedState (heap collapsed_game 0) = Some 1
   \<and> setObserverMode 0 True collapsed_game = (Return (), collapsed_game)
   \<and> handleClick_hit 0 collapsed_game = (Return (), collapsed_game)
   \<and> observedState (heap (snd (toggleObserverMode None collapsed_game)) 0) = Some 1
   \<and> observedState (heap (snd (QuantumSystem_update 1 collapsed_game)) 0) = Some 1"
  using observedState_lifecycle [where g = game_with_object and this = 0 and b = True
      and force = None and delta = 1 and fs = "Forced (Some 0)" and v = "Some 0"]
    observedState_lifecycle [where g = collapsed_game and this = 0 and b = True
      and force = None and delta = 1 and fs = "Forced (Some 0)" and v = None]
  by (simp add: collapsed_game_def construct_simps run_simps handleClick_hit_def collapse_def)

section \<open>Unregistering\<close>

lemma indexOf_range:
  "(x \<in> set xs \<longrightarrow> 0 \<le> indexOf xs x) \<and> (x \<notin> set xs \<longrightarrow> indexOf xs x = - 1)"
  by (induction xs) (auto simp add: Let_def)

lemma indexOf_nonneg: "x \<in> set xs \<Longrightarrow> 0 \<le> indexOf xs x"
  using indexOf_range [of x xs] by simp

lemma indexOf_absent: "(indexOf xs x = - 1) = (x \<notin> set xs)"
  using indexOf_range [of x xs] by auto

lemma splice1_indexOf: "x \<in> set xs \<Longrightarrow> splice1 xs (nat (indexOf xs x)) = remove1 x xs"
proof (induction xs)
  case Nil
  then show ?case by simp
next
  case (Cons y ys)
  show ?case
  proof (cases "y = x")
    case True
    then show ?thesis by (simp add: splice1_def)
  next
    case False
    with Cons.prems have mem: "x \<in> set ys" by simp
    then have nn: "0 \<le> indexOf ys x" by (rule indexOf_nonneg)
    then have "nat (indexOf ys x + 1) = Suc (nat (indexOf ys x))" by simp
    with False mem nn Cons.IH show ?thesis
      by (simp add: splice1_def Let_def indexOf_absent)
  qed
qed

lemma unregisterQuantumObject_eq:
  "unregisterQuantumObject obj g =
     (Return (), g\<lparr>quantum := (quantum g)\<lparr>quantumObjects := remove1 obj (quantumObjects (quantum g))\<rparr>\<rparr>)"
  by (simp add: unregisterQuantumObject_def Let_def indexOf_absent splice1_indexOf remove1_idem)

lemma count_list_remove1:
  "count_list (remove1 x xs) y = (if x = y \<and> x \<in> set xs then count_list xs y - 1 else count_list xs y)"
  by (induction xs) auto


lemma registry_ok_constructor:
  "registry_ok g \<Longrightarrow> registry_ok (snd (QuantumObject_constructor k pos sz g))"
  by (auto simp add: registry_ok_def QuantumObject_constructor_def createQuantumMaterial_def
      registerQuantumObject_def Math_random_def modify_def Let_def list_all_iff)

lemma registry_ok_unregister:
  "registry_ok g \<Longrightarrow> registry_ok (snd (unregisterQuantumObject obj g))"
  by (auto simp add: registry_ok_def unregisterQuantumObject_eq list_all_iff dest: notin_set_remove1)

lemma unregister_twice:
  assumes "distinct (quantumObjects (quantum g))"
  shows "unregisterQuantumObject obj (snd (unregisterQuantumObject obj g)) =
           (Return (), snd (unregisterQuantumObject obj g))"
    and "obj \<notin> set (quantumObjects (quantum (snd (unregisterQuantumObject obj g))))"
proof -
  show gone: "obj \<notin> set (quantumObjects (quantum (snd (unregisterQuantumObject obj g))))"
    using assms by (simp add: unregisterQuantumObject_eq)
  then show "unregisterQuantumObject obj (snd (unregisterQuantumObject obj g)) =
           (Return (), snd (unregisterQuantumObject obj g))"
    by (simp add: unregisterQuantumObject_def Let_def indexOf_absent)
qed

text \<open>
  Claim C8. \<open>unregisterQuantumObject\<close> never throws. Called with an object that is not
  in the registry it changes nothing. Called with an object that is in the registry it
  removes the first occurrence and nothing else: the registry is one shorter, the object
  occurs once less, every other object occurs as often as before, and the rest of the
  state is untouched. The registry of a running game holds no reference twice (a new
  game has an empty one, and construction and unregistering keep it so); there the
  object is gone after the first call and a second call changes nothing.
\<close>

theorem unregisterQuantumObject_idempotent_safe:
  "fst (unregisterQuantumObject obj g) = Return ()
   \<and> (obj \<notin> set (quantumObjects (quantum g)) \<longrightarrow> unregisterQuantumObject obj g = (Return (), g))
   \<and> (obj \<in> set (quantumObjects (quantum g)) \<longrightarrow>
        snd (unregisterQuantumObject obj g) =
          g\<lparr>quantum := (quantum g)\<lparr>quantumObjects := remove1 obj (quantumObjects (quantum g))\<rparr>\<rparr>
        \<and> length (quantumObjects (quantum (snd (unregisterQuantumObject obj g)))) =
            length (quantumObjects (quantum g)) - 1
        \<and> count_list (quantumObjects (quantum (snd (unregisterQuantumObject obj g)))) obj =
            count_list (quantumObjects (quantum g)) obj - 1
        \<and> (\<forall>x. x \<noteq> obj \<longrightarrow>
              count_list (quantumObjects (quantum (snd (unregisterQuantumObject obj g)))) x =
              count_list (quantumObjects (quantum g)) x))
   \<and> (registry_ok g \<longrightarrow>
        registry_ok (snd (unregisterQuantumObject obj g))
        \<and> obj \<notin> set (quantumObjects (quantum (snd (unregisterQuantumObject obj g))))
        \<and> unregisterQuantumObject obj (snd (unregisterQuantumObject obj g)) =
            (Return (), snd (unregisterQuantumObject obj g)))
   \<and> registry_ok new_game
   \<and> (registry_ok g \<longrightarrow> registry_ok (snd (QuantumObject_constructor k pos sz g)))"
proof (intro conjI impI allI)
  show "fst (unregisterQuantumObject obj g) = Return ()"
    by (simp add: unregisterQuantumObject_eq)
  show "registry_ok new_game"
    by (simp add: registry_ok_def new_game_def QuantumSystem_constructor_def)
next
  assume "obj \<notin> set (quantumObjects (quantum g))"
  then show "unregisterQuantumObject obj g = (Return (), g)"
    by (simp add: unregisterQuantumObject_def Let_def indexOf_absent)
next
  assume mem: "obj \<in> set (quantumObjects (quantum g))"
  show "snd (unregisterQuantumObject obj g) =
          g\<lparr>quantum := (quantum g)\<lparr>quantumObjects := remove1 obj (quantumObjects (quantum g))\<rparr>\<rparr>"
    by (simp add: unregisterQuantumObject_eq)
  show "length (quantumObjects (quantum (snd (unregisterQuantumObject obj g)))) =
            length (quantumObjects (quantum g)) - 1"
    using mem by (simp add: unregisterQuantumObject_eq length_remove1)
  show "count_list (quantumObjects (quantum (snd (unregisterQuantumObject obj g)))) obj =
            count_list (quantumObjects (quantum g)) obj - 1"
    using mem by (simp add: unregisterQuantumObject_eq count_list_remove1)
  show "count_list (quantumObjects (quantum (snd (unregisterQuantumObject obj g)))) x =
              count_list (quantumObjects (quantum g)) x" if "x \<noteq> obj" for x
    using that by (simp add: unregisterQuantumObject_eq count_list_remove1)
next
  assume ok: "registry_ok g"
  then have d: "distinct (quantumObjects (quantum g))"
    by (simp add: registry_ok_def)
  show "registry_ok (snd (unregisterQuantumObject obj g))"
    using ok by (rule registry_ok_unregister)
  show "obj \<notin> set (quantumObjects (quantum (snd (unregisterQuantumObject obj g))))"
    using d by (rule unregister_twice)
  show "unregisterQuantumObject obj (snd (unregisterQuantumObject obj g)) =
            (Return (), snd (unregisterQuantumObject obj g))"
    using d by (rule unregister_twice)
  show "registry_ok (snd (QuantumObject_constructor k pos sz g))"
    using ok by (rule registry_ok_constructor)
qed

theorem unregisterQuantumObject_idempotent_safe_witness:
  "quantumObjects (quantum game_with_obstacle) = [0]
   \<and> registry_ok game_with_obstacle
   \<and> quantumObjects (quantum (snd (unregisterQuantumObject 0 game_with_obstacle))) = []
   \<and> unregisterQuantumObject 0 (snd (unregisterQuantumObject 0 game_with_obstacle)) =
       (Return (), snd (unregisterQuantumObject 0 game_with_obstacle))
   \<and> unregisterQuantumObject 7 game_with_obstacle = (Return (), game_with_obstacle)"
proof -
  have registry: "quantumObjects (quantum game_with_obstacle) = [0]"
    by (simp add: construct_simps)
  have ok: "registry_ok game_with_obstacle"
    by (simp add: registry_ok_def construct_simps)
  show ?thesis
    using unregisterQuantumObject_idempotent_safe
        [where g = game_with_obstacle and obj = 0 and k = Base and pos = None and sz = None]
      unregisterQuantumObject_idempotent_safe
        [where g = game_with_obstacle and obj = 7 and k = Base and pos = None and sz = None]
      registry ok
    by auto
qed

section \<open>Obstacles\<close>

lemma distanceTo_along_x: "distanceTo (Vector3 a 0 0) (Vector3 b 0 0) = \<bar>a - b\<bar>"
  by (simp add: distanceTo_def)

lemma QuantumObstacle_collapse_fst:
  "fst (QuantumObstacle_collapse this fs g) =
     (if scoreValue (document g) = None then Throw TypeError
      else Return (observedState (heap (snd (QuantumObstacle_collapse this fs g)) this)))"
  by (simp add: QuantumObstacle_collapse_def case_prod_unfold QuantumObject_collapse_fst
      helper_frames modify_frame)

lemma QuantumObstacle_collapse_isHarmful:
  "scoreValue (document g) \<noteq> None \<Longrightarrow>
     isHarmful (heap (snd (QuantumObstacle_collapse this fs g)) this) =
       Some (observedState (heap (snd (QuantumObstacle_collapse this fs g)) this) = Some 1)"
  by (auto simp add: QuantumObstacle_collapse_def case_prod_unfold QuantumObject_collapse_fst
      helper_frames modify_frame)

lemma QuantumObstacle_collapse_state:
  "observedState (heap (snd (QuantumObstacle_collapse this (Forced (Some s)) g)) this) = Some s"
  "position (heap (snd (QuantumObstacle_collapse this fs g)) this) = position (heap g this)"
  "qsize (heap (snd (QuantumObstacle_collapse this fs g)) this) = qsize (heap g this)"
  by (simp_all add: variant_collapse_proj QuantumObject_collapse_forced_state)

lemma QuantumObstacle_checkPlayerCollision_eq:
  "QuantumObstacle_checkPlayerCollision this p r g =
     (Return (observedState (heap g this) = Some 1
              \<and> distanceTo (position (heap g this)) p < vx (qsize (heap g this)) / 2 + r), g)"
  by (simp add: QuantumObstacle_checkPlayerCollision_def Let_def)

text \<open>
  Claim C7. \<open>checkPlayerCollision\<close> of an obstacle changes no state. On a page that can
  show the score, \<open>collapse(1)\<close> of an obstacle returns 1 and leaves \<open>isHarmful\<close> true
  and \<open>observedState\<close> 1; after it, \<open>checkPlayerCollision(playerPosition, playerRadius)\<close>
  returns true exactly when the distance from the obstacle's position to
  \<open>playerPosition\<close> is less than \<open>size.x / 2 + playerRadius\<close>, so false at exactly that
  distance. The query reads \<open>observedState\<close>; after any collapse of the obstacle
  \<open>isHarmful\<close> is true exactly when \<open>observedState\<close> is 1, so its answer is the one
  that both together give.
\<close>

theorem obstacle_forced_harmful_collision:
  "snd (QuantumObstacle_checkPlayerCollision this p r g) = g
   \<and> (scoreValue (document g) \<noteq> None \<longrightarrow>
        (let g' = snd (QuantumObstacle_collapse this (Forced (Some 1)) g);
             reach = vx (qsize (heap g this)) / 2 + r
         in fst (QuantumObstacle_collapse this (Forced (Some 1)) g) = Return (Some 1)
            \<and> isHarmful (heap g' this) = Some True
            \<and> observedState (heap g' this) = Some 1
            \<and> QuantumObstacle_checkPlayerCollision this p r g' =
                (Return (distanceTo (position (heap g this)) p < reach), g')
            \<and> (distanceTo (position (heap g this)) p = reach \<longrightarrow>
                 fst (QuantumObstacle_checkPlayerCollision this p r g') = Return False)))
   \<and> (scoreValue (document g) \<noteq> None \<longrightarrow>
        (let g' = snd (QuantumObstacle_collapse this fs g) in
           fst (QuantumObstacle_checkPlayerCollision this p r g') =
             Return (isHarmful (heap g' this) = Some True \<and> observedState (heap g' this) = Some 1
                     \<and> distanceTo (position (heap g' this)) p < vx (qsize (heap g' this)) / 2 + r)))"
proof (intro conjI impI)
  show "snd (QuantumObstacle_checkPlayerCollision this p r g) = g"
    by (simp add: QuantumObstacle_checkPlayerCollision_eq)
next
  assume page: "scoreValue (document g) \<noteq> None"
  show "let g' = snd (QuantumObstacle_collapse this (Forced (Some 1)) g);
             reach = vx (qsize (heap g this)) / 2 + r
         in fst (QuantumObstacle_collapse this (Forced (Some 1)) g) = Return (Some 1)
            \<and> isHarmful (heap g' this) = Some True
            \<and> observedState (heap g' this) = Some 1
            \<and> QuantumObstacle_checkPlayerCollision this p r g' =
                (Return (distanceTo (position (heap g this)) p < reach), g')
            \<and> (distanceTo (position (heap g this)) p = reach \<longrightarrow>
                 fst (QuantumObstacle_checkPlayerCollision this p r g') = Return False)"
    using page QuantumObstacle_collapse_isHarmful [of g this "Forced (Some 1)"]
    by (simp add: Let_def QuantumObstacle_collapse_fst QuantumObstacle_collapse_state
        QuantumObstacle_checkPlayerCollision_eq)
next
  assume page: "scoreValue (document g) \<noteq> None"
  show "let g' = snd (QuantumObstacle_collapse this fs g) in
           fst (QuantumObstacle_checkPlayerCollision this p r g') =
             Return (isHarmful (heap g' this) = Some True \<and> observedState (heap g' this) = Some 1
                     \<and> distanceTo (position (heap g' this)) p < vx (qsize (heap g' this)) / 2 + r)"
    using page QuantumObstacle_collapse_isHarmful [of g this fs]
    by (auto simp add: Let_def QuantumObstacle_checkPlayerCollision_eq)
qed

theorem obstacle_forced_harmful_collision_witness:
  "scoreValue (document game_with_obstacle) \<noteq> None
   \<and> isHarmful (heap game_with_obstacle 0) = None
   \<and> isHarmful (heap harmful_obstacle_game 0) = Some True
   \<and> QuantumObstacle_checkPlayerCollision 0 (Vector3 1 0 0) (1 / 2) harmful_obstacle_game =
       (Return True, harmful_obstacle_game)
   \<and> QuantumObstacle_checkPlayerCollision 0 (Vector3 (3 / 2) 0 0) (1 / 2) harmful_obstacle_game =
       (Return False, harmful_obstacle_game)"
proof -
  have page: "scoreValue (document game_with_obstacle) \<noteq> None"
    and fresh: "isHarmful (heap game_with_obstacle 0) = None"
    and place: "position (heap game_with_obstacle 0) = Vector3 0 0 0"
    and extent: "qsize (heap game_with_obstacle 0) = Vector3 2 2 2"
    by (simp_all add: construct_simps)
  show ?thesis
    using obstacle_forced_harmful_collision
        [where g = game_with_obstacle and this = 0 and p = "Vector3 1 0 0" and r = "1 / 2"
           and fs = Undefined]
      obstacle_forced_harmful_collision
        [where g = game_with_obstacle and this = 0 and p = "Vector3 (3 / 2) 0 0" and r = "1 / 2"
           and fs = Undefined]
      page fresh place extent
    by (simp add: harmful_obstacle_game_def Let_def distanceTo_along_x)
qed

section \<open>Hazards\<close>

lemma QuantumHazard_constructor_result:
  "fst (QuantumHazard_constructor pos sz g) = Return (next_ref g)"
  "observedState (heap (snd (QuantumHazard_constructor pos sz g)) (next_ref g)) = None"
  "isHarmful (heap (snd (QuantumHazard_constructor pos sz g)) (next_ref g)) = Some True"
  "position (heap (snd (QuantumHazard_constructor pos sz g)) (next_ref g)) =
     (case pos of None \<Rightarrow> Vector3 0 0 0 | Some q \<Rightarrow> q)"
  "qsize (heap (snd (QuantumHazard_constructor pos sz g)) (next_ref g)) = Vector3 sz sz sz"
  by (simp_all add: QuantumHazard_constructor_def QuantumObject_constructor_def
      createQuantumMaterial_def registerQuantumObject_def Math_random_def modify_def Let_def)

lemma updateQuantumState_isHarmful:
  "isHarmful (heap (snd (updateQuantumState x d t g)) this) = isHarmful (heap g this)"
  by (simp add: updateQuantumState_def getSuperpositionState_def Let_def updateVisualState_fields
      modify_frame)

lemma QuantumHazard_checkPlayerCollision_eq:
  "QuantumHazard_checkPlayerCollision this p r g =
     (Return (isHarmful (heap g this) = Some True
              \<and> distanceTo (position (heap g this)) p < vx (qsize (heap g this)) / 2 + r), g)"
  by (simp add: QuantumHazard_checkPlayerCollision_def Let_def)

text \<open>
  Claim C10. The constructor of a hazard sets \<open>isHarmful\<close> to true and leaves
  \<open>observedState\<close> \<open>null\<close>; \<open>updateQuantumState\<close> changes neither. While \<open>isHarmful\<close>
  is true, whatever \<open>observedState\<close> is, \<open>checkPlayerCollision(playerPosition,
  playerRadius)\<close> returns true exactly when the distance from the hazard to
  \<open>playerPosition\<close> is less than \<open>size.x / 2 + playerRadius\<close>, and it changes no state.
  So a hazard that was never collapsed already collides: on the hazard just built the
  query answers with that comparison.
\<close>

theorem hazard_harmful_before_collapse:
  "snd (QuantumHazard_checkPlayerCollision this p r g) = g
   \<and> (isHarmful (heap g this) = Some True \<longrightarrow>
        fst (QuantumHazard_checkPlayerCollision this p r g) =
          Return (distanceTo (position (heap g this)) p < vx (qsize (heap g this)) / 2 + r))
   \<and> (let hazard = next_ref g; g' = snd (QuantumHazard_constructor pos sz g) in
         fst (QuantumHazard_constructor pos sz g) = Return hazard
         \<and> observedState (heap g' hazard) = None
         \<and> isHarmful (heap g' hazard) = Some True
         \<and> QuantumHazard_checkPlayerCollision hazard p r g' =
             (Return (distanceTo (case pos of None \<Rightarrow> Vector3 0 0 0 | Some q \<Rightarrow> q) p < sz / 2 + r),
              g'))
   \<and> isHarmful (heap (snd (updateQuantumState x delta time g)) this) = isHarmful (heap g this)
   \<and> observedState (heap (snd (updateQuantumState x delta time g)) this) =
       observedState (heap g this)"
  by (simp add: QuantumHazard_checkPlayerCollision_eq QuantumHazard_constructor_result Let_def
      updateQuantumState_isHarmful updateQuantumState_observedState)

theorem hazard_harmful_before_collapse_witness:
  "observedState (heap game_with_hazard 0) = None
   \<and> isHarmful (heap game_with_hazard 0) = Some True
   \<and> QuantumHazard_checkPlayerCollision 0 (Vector3 1 0 0) (1 / 2) game_with_hazard =
       (Return True, game_with_hazard)
   \<and> QuantumHazard_checkPlayerCollision 0 (Vector3 (3 / 2) 0 0) (1 / 2) game_with_hazard =
       (Return False, game_with_hazard)"
proof -
  have fresh: "observedState (heap game_with_hazard 0) = None"
    and harmful: "isHarmful (heap game_with_hazard 0) = Some True"
    and place: "position (heap game_with_hazard 0) = Vector3 0 0 0"
    and extent: "qsize (heap game_with_hazard 0) = Vector3 2 2 2"
    by (simp_all add: construct_simps)
  show ?thesis
    using hazard_harmful_before_collapse
        [where g = game_with_hazard and this = 0 and p = "Vector3 1 0 0" and r = "1 / 2"
           and pos = None and sz = 1 and x = 0 and delta = 0 and time = 0]
      hazard_harmful_before_collapse
        [where g = game_with_hazard and this = 0 and p = "Vector3 (3 / 2) 0 0" and r = "1 / 2"
           and pos = None and sz = 1 and x = 0 and delta = 0 and time = 0]
      fresh harmful place extent
    by (simp add: Let_def distanceTo_along_x prod_eq_iff)
qed

end
